theory Spec2Isabelle
  imports Main "HOL-Library.AList"
begin

section \<open>Python values\<close>

text \<open>
  The program handles the decoded JSON bodies of the provider's answers. A decoded
  value is \<open>None\<close>, a \<open>bool\<close>, an \<open>int\<close>, a \<open>float\<close>, a \<open>str\<close>, a
  \<open>list\<close> or a \<open>dict\<close> with string keys. A float is represented by its
  \<open>repr\<close> (the shortest text that reads back as the same float), a dict by its
  items in insertion order; lookups take the first item of a key, and a decoded dict has
  every key once.
\<close>

datatype json =
    JNull
  | JBool bool
  | JInt int
  | JFloat string
  | JStr string
  | JArr "json list"
  | JObj "(string \<times> json) list"

text \<open>The exceptions the program can meet; all of them are subclasses of \<open>Exception\<close>.\<close>

datatype pyerr = KeyError | TypeError | AttributeError | IndexError | RequestError

definition bind_exc :: "pyerr + 'a \<Rightarrow> ('a \<Rightarrow> pyerr + 'b) \<Rightarrow> pyerr + 'b" where
  "bind_exc r f = (case r of Inl e \<Rightarrow> Inl e | Inr v \<Rightarrow> f v)"

text \<open>Truth value testing, as \<open>if v:\<close> does it.\<close>

fun truthy :: "json \<Rightarrow> bool" where
  "truthy JNull = False"
| "truthy (JBool b) = b"
| "truthy (JInt i) = (i \<noteq> 0)"
| "truthy (JFloat s) = (s \<noteq> ''0.0'' \<and> s \<noteq> ''-0.0'')"
| "truthy (JStr s) = (s \<noteq> [])"
| "truthy (JArr xs) = (xs \<noteq> [])"
| "truthy (JObj kvs) = (kvs \<noteq> [])"

text \<open>\<open>d[k]\<close> for a string key \<open>k\<close>: only a dict can be subscripted by a string.\<close>

fun getitem :: "json \<Rightarrow> string \<Rightarrow> pyerr + json" where
  "getitem (JObj kvs) k = (case map_of kvs k of None \<Rightarrow> Inl KeyError | Some v \<Rightarrow> Inr v)"
| "getitem _ k = Inl TypeError"

text \<open>
  \<open>v[0]\<close>: the first element of a list, the first character of a string; a decoded
  dict has no integer key.
\<close>

fun getitem0 :: "json \<Rightarrow> pyerr + json" where
  "getitem0 (JArr []) = Inl IndexError"
| "getitem0 (JArr (x # xs)) = Inr x"
| "getitem0 (JStr []) = Inl IndexError"
| "getitem0 (JStr (c # cs)) = Inr (JStr [c])"
| "getitem0 (JObj kvs) = Inl KeyError"
| "getitem0 _ = Inl TypeError"

text \<open>\<open>d.get(k, default)\<close>: only a dict has the method.\<close>

fun dict_get :: "json \<Rightarrow> string \<Rightarrow> json \<Rightarrow> pyerr + json" where
  "dict_get (JObj kvs) k dflt = Inr (case map_of kvs k of None \<Rightarrow> dflt | Some v \<Rightarrow> v)"
| "dict_get _ k dflt = Inl AttributeError"

text \<open>
  The elements a \<open>for\<close> loop visits: the elements of a list, the keys of a dict, the
  characters of a string; anything else is not iterable.
\<close>

fun py_iter :: "json \<Rightarrow> pyerr + json list" where
  "py_iter (JArr xs) = Inr xs"
| "py_iter (JObj kvs) = Inr (map (\<lambda>kv. JStr (fst kv)) kvs)"
| "py_iter (JStr s) = Inr (map (\<lambda>c. JStr [c]) s)"
| "py_iter _ = Inl TypeError"

text \<open>Optional arguments (\<open>None\<close> by default) as the values put into a request.\<close>

definition str_arg :: "string option \<Rightarrow> json" where
  "str_arg a = (case a of None \<Rightarrow> JNull | Some s \<Rightarrow> JStr s)"

definition int_arg :: "int option \<Rightarrow> json" where
  "int_arg a = (case a of None \<Rightarrow> JNull | Some i \<Rightarrow> JInt i)"

text \<open>Decimal text of an integer, as \<open>str\<close> gives it.\<close>

function nat_str :: "nat \<Rightarrow> string" where
  "nat_str n = (if n < 10 then [char_of (48 + n)] else nat_str (n div 10) @ [char_of (48 + n mod 10)])"
  by pat_completeness auto
termination
  by (relation "measure id") auto

declare nat_str.simps [simp del]

definition int_str :: "int \<Rightarrow> string" where
  "int_str i = (if i < 0 then CHR ''-'' # nat_str (nat (- i)) else nat_str (nat i))"

section \<open>Tables\<close>

text \<open>
  A pandas \<open>DataFrame\<close>, as far as the program uses one: the column labels in order and
  the rows, each a list of cells aligned with the labels. The row index is not
  represented (\<open>reset_index(drop=True)\<close> renumbers it and nothing reads it).
\<close>

record dataframe =
  columns :: "string list"
  rows :: "json list list"

definition NaN :: json where
  "NaN = JFloat ''nan''"

text \<open>The elements of a list in order of first appearance, each once.\<close>

fun unique_from :: "'a list \<Rightarrow> 'a list \<Rightarrow> 'a list" where
  "unique_from seen [] = []"
| "unique_from seen (x # xs) =
     (if x \<in> set seen then unique_from seen xs else x # unique_from (x # seen) xs)"

text \<open>
  \<open>pd.DataFrame(records)\<close> for a list of dicts: the columns are the keys in order of
  first appearance, a key a record lacks gives a NaN cell.
\<close>

definition DataFrame :: "(string \<times> json) list list \<Rightarrow> dataframe" where
  "DataFrame records =
     (let cols = unique_from [] (concat (map (map fst) records))
      in \<lparr>columns = cols,
          rows = map (\<lambda>r. map (\<lambda>c. case map_of r c of None \<Rightarrow> NaN | Some v \<Rightarrow> v) cols) records\<rparr>)"

text \<open>The cells of a row under new column labels; a label the row lacks gives NaN.\<close>

definition reindex :: "string list \<Rightarrow> string list \<Rightarrow> json list \<Rightarrow> json list" where
  "reindex src dst r = map (\<lambda>c. case map_of (zip src r) c of None \<Rightarrow> NaN | Some v \<Rightarrow> v) dst"

text \<open>\<open>pd.concat([a, b])\<close>: the union of the columns, the rows of \<open>a\<close> then those of \<open>b\<close>.\<close>

definition pd_concat :: "dataframe \<Rightarrow> dataframe \<Rightarrow> dataframe" where
  "pd_concat a b =
     (let cols = columns a @ filter (\<lambda>c. c \<notin> set (columns a)) (columns b)
      in \<lparr>columns = cols,
          rows = map (reindex (columns a) cols) (rows a) @ map (reindex (columns b) cols) (rows b)\<rparr>)"

text \<open>
  \<open>df.drop_duplicates()\<close> keeps the first of the rows that are equal in every column.
  It hashes the cells, so a list or a dict in a cell raises \<open>TypeError\<close>. Cells are
  compared as decoded values; Python's identification of \<open>1\<close>, \<open>1.0\<close> and \<open>True\<close>
  is not represented.
\<close>

fun hashable :: "json \<Rightarrow> bool" where
  "hashable (JArr xs) = False"
| "hashable (JObj kvs) = False"
| "hashable _ = True"

definition drop_duplicates :: "dataframe \<Rightarrow> pyerr + dataframe" where
  "drop_duplicates df =
     (if list_all (list_all hashable) (rows df)
      then Inr (df\<lparr>rows := unique_from [] (rows df)\<rparr>)
      else Inl TypeError)"

text \<open>\<open>df.empty\<close>: no row or no column.\<close>

definition df_empty :: "dataframe \<Rightarrow> bool" where
  "df_empty df = (rows df = [] \<or> columns df = [])"

section \<open>The world outside the program\<close>

text \<open>
  A request is an endpoint and its parameters (a dict, in insertion order).
  \<open>requests.get(url, params=params).json()\<close> either raises (connection failure, a body
  that is not JSON) or gives the decoded body. The provider answers a request knowing
  every request issued before it. The world also holds the API key read from the
  environment (a string, or \<open>None\<close> when the variable is unset), Python's \<open>repr\<close> of
  lists and dicts, the directory of the script and the files written so far. Console
  output and the progress bar are not represented.
\<close>

type_synonym request = "string \<times> (string \<times> json) list"

datatype fetch = Raises | Decoded json

record world =
  provider :: "request list \<Rightarrow> request \<Rightarrow> fetch"
  issued :: "request list"
  API_KEY :: json
  container_repr :: "json \<Rightarrow> string"
  script_path :: string
  files :: "(string \<times> dataframe) list"

definition http_get_json :: "string \<Rightarrow> (string \<times> json) list \<Rightarrow> world \<Rightarrow> fetch \<times> world" where
  "http_get_json url params w =
     (provider w (issued w) (url, params), w\<lparr>issued := issued w @ [(url, params)]\<rparr>)"

text \<open>What an f-string puts in place of \<open>{v}\<close>.\<close>

definition py_str :: "world \<Rightarrow> json \<Rightarrow> string" where
  "py_str w v =
     (case v of
        JNull \<Rightarrow> ''None''
      | JBool b \<Rightarrow> (if b then ''True'' else ''False'')
      | JInt i \<Rightarrow> int_str i
      | JFloat s \<Rightarrow> s
      | JStr s \<Rightarrow> s
      | _ \<Rightarrow> container_repr w v)"

section \<open>The endpoints and the column labels\<close>

definition BASE_URL :: string where
  "BASE_URL = ''https://maps.googleapis.com/maps/api/place/textsearch/json''"

definition nearby_url :: string where
  "nearby_url = ''https://maps.googleapis.com/maps/api/place/nearbysearch/json''"

definition detalhes_url :: string where
  "detalhes_url = ''https://maps.googleapis.com/maps/api/place/details/json''"

definition geocode_url :: string where
  "geocode_url = ''https://maps.googleapis.com/maps/api/geocode/json''"

definition NA :: json where
  "NA = JStr ''N/A''"

text \<open>The label \<open>Endere\<close>\<open>c\<close>\<open>o\<close> is written with a cedilla: two bytes in UTF-8.\<close>

definition Endereco :: string where
  "Endereco = ''Endere'' @ [CHR 0xC3, CHR 0xA7] @ ''o''"

section \<open>obter\_detalhes\_por\_place\_id\<close>

definition detalhes_params :: "world \<Rightarrow> json \<Rightarrow> (string \<times> json) list" where
  "detalhes_params w pid =
     [(''place_id'', pid), (''key'', API_KEY w),
      (''fields'', JStr ''name,formatted_phone_number,website'')]"

definition obter_detalhes_por_place_id :: "json \<Rightarrow> world \<Rightarrow> json \<times> world" where
  "obter_detalhes_por_place_id pid w =
     (let (response, w') = http_get_json detalhes_url (detalhes_params w pid) w
      in case response of
           Raises \<Rightarrow> (JObj [], w')
         | Decoded dados \<Rightarrow>
             (case getitem dados ''status'' of
                Inl e \<Rightarrow> (JObj [], w')
              | Inr status \<Rightarrow>
                  if status = JStr ''OK''
                  then (case getitem dados ''result'' of
                          Inl e \<Rightarrow> (JObj [], w')
                        | Inr result \<Rightarrow> (result, w'))
                  else (JObj [], w')))"

section \<open>One search hit\<close>

text \<open>
  The body of the \<open>for\<close> loop of \<open>buscar_textsearch\<close> and \<open>buscar_nearbysearch\<close>. The
  two functions differ in the endpoint and in the key the address is read from
  (\<open>formatted_address\<close>, \<open>vicinity\<close>), and are the same text otherwise. The local
  variables read from the hit and from the details are kept as records; the row is built
  from them.
\<close>

record search_hit =
  nome :: json
  endereco :: json
  place_id :: json
  lat :: json
  lng :: json

record detail_vars =
  telefone :: json
  website :: json
  razao_social_detalhada :: json

definition read_coord :: "json \<Rightarrow> string \<Rightarrow> pyerr + json" where
  "read_coord resultado axis =
     bind_exc (dict_get resultado ''geometry'' (JObj [])) (\<lambda>geometry.
     bind_exc (dict_get geometry ''location'' (JObj [])) (\<lambda>location.
     dict_get location axis NA))"

definition read_hit :: "string \<Rightarrow> json \<Rightarrow> pyerr + search_hit" where
  "read_hit address_key resultado =
     bind_exc (dict_get resultado ''name'' NA) (\<lambda>n.
     bind_exc (dict_get resultado address_key NA) (\<lambda>e.
     bind_exc (dict_get resultado ''place_id'' NA) (\<lambda>p.
     bind_exc (read_coord resultado ''lat'') (\<lambda>la.
     bind_exc (read_coord resultado ''lng'') (\<lambda>ln.
     Inr \<lparr>nome = n, endereco = e, place_id = p, lat = la, lng = ln\<rparr>)))))"

definition read_details :: "json \<Rightarrow> pyerr + detail_vars" where
  "read_details detalhes =
     (if truthy detalhes
      then bind_exc (dict_get detalhes ''formatted_phone_number'' NA) (\<lambda>t.
           bind_exc (dict_get detalhes ''website'' NA) (\<lambda>s.
           bind_exc (dict_get detalhes ''name'' NA) (\<lambda>n.
           Inr \<lparr>telefone = t, website = s, razao_social_detalhada = n\<rparr>)))
      else Inr \<lparr>telefone = NA, website = NA, razao_social_detalhada = NA\<rparr>)"

definition make_row :: "search_hit \<Rightarrow> detail_vars \<Rightarrow> (string \<times> json) list" where
  "make_row h d =
     [(''Nome'', nome h), (Endereco, endereco h), (''Telefone'', telefone d), (''Website'', website d)]"

definition process_hit ::
  "string \<Rightarrow> json \<Rightarrow> world \<Rightarrow> (pyerr + (string \<times> json) list) \<times> world" where
  "process_hit address_key resultado w =
     (case read_hit address_key resultado of
        Inl e \<Rightarrow> (Inl e, w)
      | Inr h \<Rightarrow>
          (let (detalhes, w') = obter_detalhes_por_place_id (place_id h) w
           in case read_details detalhes of
                Inl e \<Rightarrow> (Inl e, w')
              | Inr d \<Rightarrow> (Inr (make_row h d), w')))"

text \<open>
  The \<open>for\<close> loop: the rows are appended to \<open>resultados\<close> one by one, so an exception
  leaves the rows of the hits before it in the list.
\<close>

fun process_hits ::
  "string \<Rightarrow> json list \<Rightarrow> (string \<times> json) list list \<Rightarrow> world
     \<Rightarrow> (pyerr option \<times> (string \<times> json) list list) \<times> world" where
  "process_hits address_key [] resultados w = ((None, resultados), w)"
| "process_hits address_key (resultado # rest) resultados w =
     (case process_hit address_key resultado w of
        (Inl e, w') \<Rightarrow> ((Some e, resultados), w')
      | (Inr r, w') \<Rightarrow> process_hits address_key rest (resultados @ [r]) w')"

section \<open>The pagination loop\<close>

text \<open>
  \<open>with_pagetoken\<close> is \<open>if next_page_token: params['pagetoken'] = next_page_token\<close>, and
  \<open>page_turn\<close> one turn of \<open>while True\<close>. It ends the loop (\<open>break\<close>, or an exception caught by the
  \<open>except\<close> around the loop, after which the function returns \<open>resultados\<close>), or goes
  round again with the parameters as updated, the new token and the rows so far.
\<close>

definition with_pagetoken :: "json \<Rightarrow> (string \<times> json) list \<Rightarrow> (string \<times> json) list" where
  "with_pagetoken next_page_token params =
     (if truthy next_page_token then AList.update ''pagetoken'' next_page_token params else params)"

datatype turn =
    Finished "(string \<times> json) list list"
  | Again "(string \<times> json) list" json "(string \<times> json) list list"

definition page_turn ::
  "string \<Rightarrow> string \<Rightarrow> (string \<times> json) list \<Rightarrow> json \<Rightarrow> (string \<times> json) list list \<Rightarrow> world
     \<Rightarrow> turn \<times> world" where
  "page_turn url address_key params next_page_token resultados w =
     (let params' = with_pagetoken next_page_token params;
          (response, w1) = http_get_json url params' w
      in case response of
           Raises \<Rightarrow> (Finished resultados, w1)
         | Decoded dados \<Rightarrow>
             (case getitem dados ''status'' of
                Inl e \<Rightarrow> (Finished resultados, w1)
              | Inr status \<Rightarrow>
                  if status = JStr ''OK''
                  then (case bind_exc (getitem dados ''results'') py_iter of
                          Inl e \<Rightarrow> (Finished resultados, w1)
                        | Inr hits \<Rightarrow>
                            (case process_hits address_key hits resultados w1 of
                               ((Some e, resultados'), w2) \<Rightarrow> (Finished resultados', w2)
                             | ((None, resultados'), w2) \<Rightarrow>
                                 (case dict_get dados ''next_page_token'' JNull of
                                    Inl e \<Rightarrow> (Finished resultados', w2)
                                  | Inr token \<Rightarrow>
                                      if truthy token
                                      then (Again params' token resultados', w2)
                                      else (Finished resultados', w2))))
                  else (Finished resultados, w1)))"

partial_function (option) search_loop ::
  "string \<Rightarrow> string \<Rightarrow> (string \<times> json) list \<Rightarrow> json \<Rightarrow> (string \<times> json) list list \<Rightarrow> world
     \<Rightarrow> ((string \<times> json) list list \<times> world) option" where
  "search_loop url address_key params next_page_token resultados w =
     (case page_turn url address_key params next_page_token resultados w of
        (Finished resultados', w') \<Rightarrow> Some (resultados', w')
      | (Again params' token resultados', w') \<Rightarrow>
          search_loop url address_key params' token resultados' w')"

section \<open>buscar\_textsearch and buscar\_nearbysearch\<close>

text \<open>
  \<open>params['query'] += s\<close>; the entry is the string put there when the dict was built.
\<close>

definition add_to_query :: "string \<Rightarrow> (string \<times> json) list \<Rightarrow> (string \<times> json) list" where
  "add_to_query s params =
     (case map_of params ''query'' of
        Some (JStr q) \<Rightarrow> AList.update ''query'' (JStr (q @ s)) params
      | _ \<Rightarrow> params)"

definition textsearch_params ::
  "world \<Rightarrow> string \<Rightarrow> string option \<Rightarrow> int option \<Rightarrow> string option \<Rightarrow> string option
     \<Rightarrow> (string \<times> json) list" where
  "textsearch_params w razao_social localizacao raio cidade estado =
     (let p0 = [(''query'', JStr razao_social), (''key'', API_KEY w)];
          p1 = (if truthy (str_arg localizacao)
                then AList.update ''location'' (str_arg localizacao) p0 else p0);
          p2 = (if truthy (int_arg raio)
                then AList.update ''radius'' (int_arg raio) p1 else p1);
          p3 = (case cidade of
                  None \<Rightarrow> p2
                | Some c \<Rightarrow> if truthy (JStr c) then add_to_query ('' in '' @ c) p2 else p2)
      in case estado of
           None \<Rightarrow> p3
         | Some e \<Rightarrow> if truthy (JStr e) then add_to_query ('', '' @ e) p3 else p3)"

definition nearby_params ::
  "world \<Rightarrow> string \<Rightarrow> string option \<Rightarrow> int option \<Rightarrow> (string \<times> json) list" where
  "nearby_params w razao_social localizacao raio =
     [(''keyword'', JStr razao_social), (''location'', str_arg localizacao),
      (''radius'', int_arg raio), (''key'', API_KEY w)]"

text \<open>
  The part the two functions share: the loop, started with no token and no rows, and
  \<open>pd.DataFrame(resultados)\<close> on what it leaves.
\<close>

definition run_search ::
  "string \<Rightarrow> string \<Rightarrow> (string \<times> json) list \<Rightarrow> world \<Rightarrow> (dataframe \<times> world) option" where
  "run_search url address_key params w =
     map_option (\<lambda>(resultados, w'). (DataFrame resultados, w'))
       (search_loop url address_key params JNull [] w)"

definition buscar_textsearch ::
  "string \<Rightarrow> string option \<Rightarrow> int option \<Rightarrow> string option \<Rightarrow> string option \<Rightarrow> world
     \<Rightarrow> (dataframe \<times> world) option" where
  "buscar_textsearch razao_social localizacao raio cidade estado w =
     run_search BASE_URL ''formatted_address''
       (textsearch_params w razao_social localizacao raio cidade estado) w"

definition buscar_nearbysearch ::
  "string \<Rightarrow> string option \<Rightarrow> int option \<Rightarrow> world \<Rightarrow> (dataframe \<times> world) option" where
  "buscar_nearbysearch razao_social localizacao raio w =
     run_search nearby_url ''vicinity'' (nearby_params w razao_social localizacao raio) w"

section \<open>buscar\_empresas\_por\_razao\_social\<close>

definition buscar_empresas_por_razao_social ::
  "string \<Rightarrow> string option \<Rightarrow> int option \<Rightarrow> string option \<Rightarrow> string option \<Rightarrow> world
     \<Rightarrow> ((pyerr + dataframe) \<times> world) option" where
  "buscar_empresas_por_razao_social razao_social localizacao raio cidade estado w =
     (case buscar_textsearch razao_social localizacao raio cidade estado w of
        None \<Rightarrow> None
      | Some (resultados_textsearch, w1) \<Rightarrow>
          (case buscar_nearbysearch razao_social localizacao raio w1 of
             None \<Rightarrow> None
           | Some (resultados_nearbysearch, w2) \<Rightarrow>
               Some (drop_duplicates (pd_concat resultados_textsearch resultados_nearbysearch), w2)))"

section \<open>obter\_coordenadas\<close>

definition geocode_params :: "world \<Rightarrow> string \<Rightarrow> string \<Rightarrow> (string \<times> json) list" where
  "geocode_params w cidade estado =
     [(''address'', JStr (cidade @ '', '' @ estado)), (''key'', API_KEY w)]"

definition first_location :: "json \<Rightarrow> pyerr + json" where
  "first_location dados =
     bind_exc (getitem dados ''results'') (\<lambda>results.
     bind_exc (getitem0 results) (\<lambda>candidate.
     bind_exc (getitem candidate ''geometry'') (\<lambda>geometry.
     getitem geometry ''location'')))"

definition obter_coordenadas :: "string \<Rightarrow> string \<Rightarrow> world \<Rightarrow> string option \<times> world" where
  "obter_coordenadas cidade estado w =
     (let (response, w') = http_get_json geocode_url (geocode_params w cidade estado) w
      in case response of
           Raises \<Rightarrow> (None, w')
         | Decoded dados \<Rightarrow>
             (case getitem dados ''status'' of
                Inl e \<Rightarrow> (None, w')
              | Inr status \<Rightarrow>
                  if status = JStr ''OK''
                  then (case first_location dados of
                          Inl e \<Rightarrow> (None, w')
                        | Inr location \<Rightarrow>
                            (case getitem location ''lat'' of
                               Inl e \<Rightarrow> (None, w')
                             | Inr la \<Rightarrow>
                                 (case getitem location ''lng'' of
                                    Inl e \<Rightarrow> (None, w')
                                  | Inr ln \<Rightarrow> (Some (py_str w la @ '','' @ py_str w ln), w'))))
                  else (None, w')))"

section \<open>salvar\_resultados\<close>

definition rename_columns :: "(string \<times> string) list \<Rightarrow> dataframe \<Rightarrow> dataframe" where
  "rename_columns names df =
     df\<lparr>columns := map (\<lambda>c. case map_of names c of None \<Rightarrow> c | Some c' \<Rightarrow> c') (columns df)\<rparr>"

text \<open>\<open>df[label] = v\<close> for a scalar \<open>v\<close>: the column is overwritten, or added last.\<close>

definition set_column :: "string \<Rightarrow> json \<Rightarrow> dataframe \<Rightarrow> dataframe" where
  "set_column label v df =
     (if label \<in> set (columns df)
      then df\<lparr>rows := map (\<lambda>r. map (\<lambda>(c, x). if c = label then v else x) (zip (columns df) r)) (rows df)\<rparr>
      else \<lparr>columns = columns df @ [label], rows = map (\<lambda>r. r @ [v]) (rows df)\<rparr>)"

text \<open>\<open>df[[labels]]\<close>: a label that is no column raises \<open>KeyError\<close>.\<close>

definition select_columns :: "string list \<Rightarrow> dataframe \<Rightarrow> pyerr + dataframe" where
  "select_columns labels df =
     (if list_all (\<lambda>c. c \<in> set (columns df)) labels
      then Inr \<lparr>columns = labels, rows = map (reindex (columns df) labels) (rows df)\<rparr>
      else Inl KeyError)"

text \<open>\<open>os.path.join\<close> of two POSIX paths.\<close>

definition os_path_join :: "string \<Rightarrow> string \<Rightarrow> string" where
  "os_path_join a b =
     (if b \<noteq> [] \<and> hd b = CHR ''/'' then b
      else if a = [] \<or> last a = CHR ''/'' then a @ b
      else a @ ''/'' @ b)"

definition export_columns :: "string list" where
  "export_columns = [''REGIAO'', ''NOME DA EMPRESA'', ''NOME DO CONTATO'', ''TELEFONE'', ''SITE'']"

text \<open>
  The table handed to \<open>to_excel\<close> (written with \<open>index=False\<close>: the labels, then the
  rows) is recorded under the path of the file; the write itself is taken to succeed.
  The argument \<open>cidade\<close> is not used by the function.
\<close>

definition salvar_resultados ::
  "dataframe \<Rightarrow> string \<Rightarrow> string \<Rightarrow> world \<Rightarrow> (pyerr + unit) \<times> world" where
  "salvar_resultados resultados nome_arquivo cidade w =
     (let resultados_filtrados = resultados;
          caminho_arquivo = os_path_join (script_path w) nome_arquivo;
          renamed = rename_columns
            [(Endereco, ''REGIAO''), (''Nome'', ''NOME DA EMPRESA''),
             (''Telefone'', ''TELEFONE''), (''Website'', ''SITE'')] resultados_filtrados;
          with_contact = set_column ''NOME DO CONTATO'' (JStr []) renamed
      in case select_columns export_columns with_contact of
           Inl e \<Rightarrow> (Inl e, w)
         | Inr resultados_formatados \<Rightarrow>
             (Inr (), w\<lparr>files := files w @ [(caminho_arquivo, resultados_formatados)]\<rparr>))"

section \<open>The script\<close>

text \<open>
  The block under \<open>__main__\<close>; \<open>cidade\<close> and \<open>estado\<close> are the two lines read from the
  console. An exception of the aggregator is not caught here and ends the script.
\<close>

definition main :: "string \<Rightarrow> string \<Rightarrow> world \<Rightarrow> ((pyerr + unit) \<times> world) option" where
  "main cidade estado w =
     (let razao_social = ''RAZAO SOCIAL'';
          (localizacao, w1) = obter_coordenadas cidade estado w;
          raio = 23000
      in if truthy (str_arg localizacao)
         then (case buscar_empresas_por_razao_social razao_social localizacao (Some raio)
                      (Some cidade) (Some estado) w1 of
                 None \<Rightarrow> None
               | Some (Inl e, w2) \<Rightarrow> Some (Inl e, w2)
               | Some (Inr resultados, w2) \<Rightarrow>
                   if \<not> df_empty resultados
                   then Some (salvar_resultados resultados ''resultados_busca_formatado.xlsx'' cidade w2)
                   else Some (Inr (), w2))
         else Some (Inr (), w1))"

section \<open>A sample provider\<close>

text \<open>
  The scenario of the specification: the geocoder places the city at 39.78,-89.65; the
  text search finds Acme Ltda; the nearby search finds Acme Ltda again on its first page
  and Acme Parts on its second. The details of Acme Ltda are complete, those of Acme
  Parts have a name only, and any other place is unknown.
\<close>

definition acme_details :: "json \<Rightarrow> fetch" where
  "acme_details pid =
     (if pid = JStr ''p1'' then
        Decoded (JObj [(''status'', JStr ''OK''),
          (''result'', JObj [(''name'', JStr ''Acme Ltda (matriz)''),
                             (''formatted_phone_number'', JStr ''555-0100''),
                             (''website'', JStr ''https://acme.example'')])])
      else if pid = JStr ''p2'' then
        Decoded (JObj [(''status'', JStr ''OK''), (''result'', JObj [(''name'', JStr ''Acme Parts'')])])
      else Decoded (JObj [(''status'', JStr ''NOT_FOUND'')]))"

definition acme_hit :: "string \<Rightarrow> string \<Rightarrow> string \<Rightarrow> string \<Rightarrow> json" where
  "acme_hit address_key n a p =
     JObj [(''name'', JStr n), (address_key, JStr a), (''place_id'', JStr p),
           (''geometry'', JObj [(''location'', JObj [(''lat'', JFloat ''39.78''), (''lng'', JFloat ''-89.65'')])])]"

definition acme_provider :: "request list \<Rightarrow> request \<Rightarrow> fetch" where
  "acme_provider hist req =
     (if fst req = geocode_url then
        Decoded (JObj [(''status'', JStr ''OK''),
          (''results'', JArr [JObj [(''geometry'',
             JObj [(''location'', JObj [(''lat'', JFloat ''39.78''), (''lng'', JFloat ''-89.65'')])])]])])
      else if fst req = detalhes_url then
        (case map_of (snd req) ''place_id'' of None \<Rightarrow> Raises | Some pid \<Rightarrow> acme_details pid)
      else if fst req = BASE_URL then
        Decoded (JObj [(''status'', JStr ''OK''),
          (''results'', JArr [acme_hit ''formatted_address'' ''Acme Ltda'' ''1 Main St'' ''p1''])])
      else if fst req = nearby_url then
        (case map_of (snd req) ''pagetoken'' of
           None \<Rightarrow> Decoded (JObj [(''status'', JStr ''OK''),
                      (''results'', JArr [acme_hit ''vicinity'' ''Acme Ltda'' ''1 Main St'' ''p1'']),
                      (''next_page_token'', JStr ''page2'')])
         | Some t \<Rightarrow> Decoded (JObj [(''status'', JStr ''OK''),
                      (''results'', JArr [acme_hit ''vicinity'' ''Acme Parts'' ''2 Side St'' ''p2''])]))
      else Raises)"

definition acme_world :: world where
  "acme_world = \<lparr>provider = acme_provider, issued = [], API_KEY = JStr ''k'',
     container_repr = (\<lambda>v. ''?''), script_path = ''/app'', files = []\<rparr>"

text \<open>A world in which every request fails, and no API key is set.\<close>

definition offline_world :: world where
  "offline_world = \<lparr>provider = (\<lambda>hist req. Raises), issued = [], API_KEY = JNull,
     container_repr = (\<lambda>v. ''?''), script_path = ''/app'', files = []\<rparr>"

text \<open>The row both searches give for Acme Ltda.\<close>

definition acme_rows :: "(string \<times> json) list list" where
  "acme_rows =
     [[(''Nome'', JStr ''Acme Ltda''), (Endereco, JStr ''1 Main St''),
       (''Telefone'', JStr ''555-0100''), (''Website'', JStr ''https://acme.example'')]]"

text \<open>A hit whose name is an explicit \<open>null\<close>, and which has no place id.\<close>

definition null_name_hit :: json where
  "null_name_hit = JObj [(''name'', JNull), (''formatted_address'', JStr ''1 Main St'')]"

section \<open>Notions used in the statements\<close>

text \<open>
  The position of the first occurrence of an element in a list, and the rows the loops
  produce: dicts with the four keys of the result.
\<close>

definition first_index :: "'a list \<Rightarrow> 'a \<Rightarrow> nat" where
  "first_index xs x = length (takeWhile (\<lambda>y. y \<noteq> x) xs)"

definition result_row :: "(string \<times> json) list \<Rightarrow> bool" where
  "result_row r = (map fst r = [''Nome'', Endereco, ''Telefone'', ''Website''])"

text \<open>The rows a turn of the loop leaves.\<close>

definition turn_rows :: "turn \<Rightarrow> (string \<times> json) list list" where
  "turn_rows t = (case t of Finished r \<Rightarrow> r | Again p tok r \<Rightarrow> r)"

text \<open>The row the nearby search gives for Acme Parts.\<close>

definition parts_row :: "(string \<times> json) list" where
  "parts_row = [(''Nome'', JStr ''Acme Parts''), (Endereco, JStr ''2 Side St''),
       (''Telefone'', JStr ''N/A''), (''Website'', JStr ''N/A'')]"

text \<open>
  Two providers that differ at most in the \<open>name\<close> of the \<open>result\<close> of their answers
  to requests for details: with the names taken away the answers are the same. And what
  \<open>obter_detalhes_por_place_id\<close> makes of an answer.
\<close>

fun without_name :: "json \<Rightarrow> json" where
  "without_name (JObj kvs) = JObj (filter (\<lambda>kv. fst kv \<noteq> ''name'') kvs)"
| "without_name v = v"

fun hide_detail_name :: "fetch \<Rightarrow> fetch" where
  "hide_detail_name (Decoded (JObj kvs)) =
     Decoded (JObj (map (\<lambda>kv. if fst kv = ''result'' then (fst kv, without_name (snd kv)) else kv) kvs))"
| "hide_detail_name r = r"

definition detail_name_variant ::
  "(request list \<Rightarrow> request \<Rightarrow> fetch) \<Rightarrow> (request list \<Rightarrow> request \<Rightarrow> fetch) \<Rightarrow> bool" where
  "detail_name_variant p q =
     (\<forall>hist req.
        (fst req = detalhes_url \<longrightarrow> hide_detail_name (p hist req) = hide_detail_name (q hist req))
        \<and> (fst req \<noteq> detalhes_url \<longrightarrow> p hist req = q hist req))"

definition details_of :: "fetch \<Rightarrow> json" where
  "details_of r =
     (case r of
        Raises \<Rightarrow> JObj []
      | Decoded dados \<Rightarrow>
          (case getitem dados ''status'' of
             Inl e \<Rightarrow> JObj []
           | Inr status \<Rightarrow>
               if status = JStr ''OK''
               then (case getitem dados ''result'' of Inl e \<Rightarrow> JObj [] | Inr result \<Rightarrow> result)
               else JObj []))"

text \<open>
  A provider whose details all carry the name \<open>n\<close>: the answers of \<open>p\<close>, the name in
  the \<open>result\<close> of the details replaced.
\<close>

fun put_name :: "json \<Rightarrow> json \<Rightarrow> json" where
  "put_name n (JObj kvs) = JObj ((''name'', n) # filter (\<lambda>kv. fst kv \<noteq> ''name'') kvs)"
| "put_name n v = v"

fun with_detail_name :: "json \<Rightarrow> fetch \<Rightarrow> fetch" where
  "with_detail_name n (Decoded (JObj kvs)) =
     Decoded (JObj (map (\<lambda>kv. if fst kv = ''result'' then (fst kv, put_name n (snd kv)) else kv) kvs))"
| "with_detail_name n r = r"

definition renaming_provider ::
  "json \<Rightarrow> (request list \<Rightarrow> request \<Rightarrow> fetch) \<Rightarrow> request list \<Rightarrow> request \<Rightarrow> fetch" where
  "renaming_provider n p hist req =
     (if fst req = detalhes_url then with_detail_name n (p hist req) else p hist req)"

text \<open>
  The requests of a log that went to one endpoint; the hits and the continuation token
  of a page; a hit, a page and an answer with details that are read without an
  exception.
\<close>

definition requests_to :: "string \<Rightarrow> request list \<Rightarrow> request list" where
  "requests_to url hist = filter (\<lambda>r. fst r = url) hist"

definition page_hits :: "json \<Rightarrow> pyerr + json list" where
  "page_hits dados = bind_exc (getitem dados ''results'') py_iter"

definition page_token :: "json \<Rightarrow> json" where
  "page_token dados = (case dict_get dados ''next_page_token'' JNull of Inl e \<Rightarrow> JNull | Inr t \<Rightarrow> t)"

definition readable_hit :: "string \<Rightarrow> json \<Rightarrow> bool" where
  "readable_hit address_key h = (case read_hit address_key h of Inl e \<Rightarrow> False | Inr x \<Rightarrow> True)"

definition readable_page :: "string \<Rightarrow> json \<Rightarrow> bool" where
  "readable_page address_key dados =
     (getitem dados ''status'' = Inr (JStr ''OK'')
      \<and> (case page_hits dados of Inl e \<Rightarrow> False | Inr hits \<Rightarrow> list_all (readable_hit address_key) hits))"

definition readable_details :: "fetch \<Rightarrow> bool" where
  "readable_details r = (case read_details (details_of r) of Inl e \<Rightarrow> False | Inr d \<Rightarrow> True)"

text \<open>The two pages the sample provider gives the nearby search.\<close>

definition acme_nearby_pages :: "json list" where
  "acme_nearby_pages =
     [JObj [(''status'', JStr ''OK''),
            (''results'', JArr [acme_hit ''vicinity'' ''Acme Ltda'' ''1 Main St'' ''p1'']),
            (''next_page_token'', JStr ''page2'')],
      JObj [(''status'', JStr ''OK''),
            (''results'', JArr [acme_hit ''vicinity'' ''Acme Parts'' ''2 Side St'' ''p2''])]]"


text \<open>
  A provider that answers a search request without \<open>pagetoken\<close> with \<open>page1\<close> and one with a
  \<open>pagetoken\<close> with \<open>page2\<close>; its details are those of the sample. And a second page whose
  second hit is a string.
\<close>

definition two_page_provider :: "fetch \<Rightarrow> fetch \<Rightarrow> request list \<Rightarrow> request \<Rightarrow> fetch" where
  "two_page_provider page1 page2 hist req =
     (if fst req = detalhes_url then
        (case map_of (snd req) ''place_id'' of None \<Rightarrow> Raises | Some pid \<Rightarrow> acme_details pid)
      else
        (case map_of (snd req) ''pagetoken'' of None \<Rightarrow> page1 | Some t \<Rightarrow> page2))"

definition two_page_world :: "fetch \<Rightarrow> fetch \<Rightarrow> world" where
  "two_page_world page1 page2 = acme_world\<lparr>provider := two_page_provider page1 page2\<rparr>"


text \<open>
  A cell that is a string or \<open>None\<close>. And a page whose only hit has a list for its
  name.
\<close>

fun text_cell :: "json \<Rightarrow> bool" where
  "text_cell (JStr s) = True"
| "text_cell JNull = True"
| "text_cell v = False"

definition list_name_page :: json where
  "list_name_page =
     JObj [(''status'', JStr ''OK''),
           (''results'', JArr [JObj [(''name'', JArr [JStr ''Acme'', JStr ''Ltda''])]])]"

text \<open>
  A page with status OK and a token whose only hit has \<open>null\<close> for its geometry, and a
  page with status OK, no hit and no token.
\<close>

definition null_geometry_page :: json where
  "null_geometry_page =
     JObj [(''status'', JStr ''OK''),
           (''results'', JArr [JObj [(''name'', JStr ''A''), (''geometry'', JNull)]]),
           (''next_page_token'', JStr ''page2'')]"

definition empty_page :: json where
  "empty_page = JObj [(''status'', JStr ''OK''), (''results'', JArr [])]"

text \<open>
  Decimal digits and the number a decimal text stands for. And a world whose geocoder
  gives integers for the coordinates.
\<close>

definition is_digit :: "char \<Rightarrow> bool" where
  "is_digit c = (48 \<le> (of_char c :: nat) \<and> (of_char c :: nat) \<le> 57)"

definition decimal_value :: "string \<Rightarrow> nat" where
  "decimal_value s = foldl (\<lambda>a c. 10 * a + ((of_char c :: nat) - 48)) 0 s"

definition integer_world :: world where
  "integer_world = \<lparr>provider = (\<lambda>hist req.
       Decoded (JObj [(''status'', JStr ''OK''),
         (''results'', JArr [JObj [(''geometry'',
            JObj [(''location'', JObj [(''lat'', JInt 40), (''lng'', JInt (- 75))])])]])])),
     issued = [], API_KEY = JStr ''k'',
     container_repr = (\<lambda>v. ''?''), script_path = ''/app'', files = []\<rparr>"

section \<open>Properties\<close>

subsection \<open>Requests\<close>

lemma issued_http_get_json [simp]:
  "issued (snd (http_get_json url params w)) = issued w @ [(url, params)]"
  by (simp add: http_get_json_def)

lemma fst_http_get_json [simp]:
  "fst (http_get_json url params w) = provider w (issued w) (url, params)"
  by (simp add: http_get_json_def)

lemma snd_obter_detalhes:
  "snd (obter_detalhes_por_place_id pid w) = w\<lparr>issued := issued w @ [(detalhes_url, detalhes_params w pid)]\<rparr>"
  by (simp add: obter_detalhes_por_place_id_def http_get_json_def split: fetch.splits sum.splits)

text \<open>
  Claim C5. \<open>obter_detalhes_por_place_id\<close> returns the \<open>result\<close> object of the answer
  when its status is OK, and the empty dict when the status is anything else or the
  request raises; it issues exactly one request. In the caller, a dict of details gives
  for each of the telephone, the website and the name the value under its key, or "N/A"
  when the key is absent, and the empty dict gives "N/A" for all three.
\<close>

theorem detail_enricher:
  "(\<forall>dados result.
       provider w (issued w) (detalhes_url, detalhes_params w pid) = Decoded dados \<and>
       getitem dados ''status'' = Inr (JStr ''OK'') \<and> getitem dados ''result'' = Inr result
       \<longrightarrow> fst (obter_detalhes_por_place_id pid w) = result)
   \<and> (\<forall>dados.
       provider w (issued w) (detalhes_url, detalhes_params w pid) = Decoded dados \<and>
       getitem dados ''status'' \<noteq> Inr (JStr ''OK'')
       \<longrightarrow> fst (obter_detalhes_por_place_id pid w) = JObj [])
   \<and> (provider w (issued w) (detalhes_url, detalhes_params w pid) = Raises
       \<longrightarrow> fst (obter_detalhes_por_place_id pid w) = JObj [])
   \<and> issued (snd (obter_detalhes_por_place_id pid w))
       = issued w @ [(detalhes_url, detalhes_params w pid)]
   \<and> (\<forall>kvs. read_details (JObj kvs) =
         Inr \<lparr>telefone = (case map_of kvs ''formatted_phone_number'' of None \<Rightarrow> JStr ''N/A'' | Some v \<Rightarrow> v),
              website = (case map_of kvs ''website'' of None \<Rightarrow> JStr ''N/A'' | Some v \<Rightarrow> v),
              razao_social_detalhada = (case map_of kvs ''name'' of None \<Rightarrow> JStr ''N/A'' | Some v \<Rightarrow> v)\<rparr>)
   \<and> read_details (JObj []) =
         Inr \<lparr>telefone = JStr ''N/A'', website = JStr ''N/A'', razao_social_detalhada = JStr ''N/A''\<rparr>"
proof -
  have ok: "fst (obter_detalhes_por_place_id pid w) = result"
    if "provider w (issued w) (detalhes_url, detalhes_params w pid) = Decoded dados"
      "getitem dados ''status'' = Inr (JStr ''OK'')" "getitem dados ''result'' = Inr result"
    for dados result
    using that by (simp add: obter_detalhes_por_place_id_def http_get_json_def)
  have bad: "fst (obter_detalhes_por_place_id pid w) = JObj []"
    if "provider w (issued w) (detalhes_url, detalhes_params w pid) = Decoded dados"
      "getitem dados ''status'' \<noteq> Inr (JStr ''OK'')"
    for dados
    using that by (simp add: obter_detalhes_por_place_id_def http_get_json_def split: sum.splits)
  have raises: "fst (obter_detalhes_por_place_id pid w) = JObj []"
    if "provider w (issued w) (detalhes_url, detalhes_params w pid) = Raises"
    using that by (simp add: obter_detalhes_por_place_id_def http_get_json_def)
  have once: "issued (snd (obter_detalhes_por_place_id pid w))
       = issued w @ [(detalhes_url, detalhes_params w pid)]"
    by (simp add: snd_obter_detalhes)
  have caller: "read_details (JObj kvs) =
         Inr \<lparr>telefone = (case map_of kvs ''formatted_phone_number'' of None \<Rightarrow> JStr ''N/A'' | Some v \<Rightarrow> v),
              website = (case map_of kvs ''website'' of None \<Rightarrow> JStr ''N/A'' | Some v \<Rightarrow> v),
              razao_social_detalhada = (case map_of kvs ''name'' of None \<Rightarrow> JStr ''N/A'' | Some v \<Rightarrow> v)\<rparr>" for kvs
    by (cases kvs) (simp_all add: read_details_def bind_exc_def NA_def)
  from ok bad raises once caller show ?thesis
    by (simp add: read_details_def NA_def)
qed

theorem detail_enricher_witness:
  "fst (obter_detalhes_por_place_id (JStr ''p2'') acme_world) = JObj [(''name'', JStr ''Acme Parts'')]
   \<and> fst (obter_detalhes_por_place_id (JStr ''p9'') acme_world) = JObj []
   \<and> issued (snd (obter_detalhes_por_place_id (JStr ''p2'') acme_world))
       = [(detalhes_url, detalhes_params acme_world (JStr ''p2''))]
   \<and> read_details (JObj [(''name'', JStr ''Acme Parts'')]) =
       Inr \<lparr>telefone = JStr ''N/A'', website = JStr ''N/A'', razao_social_detalhada = JStr ''Acme Parts''\<rparr>"
proof -
  have a: "provider acme_world (issued acme_world) (detalhes_url, detalhes_params acme_world (JStr ''p2''))
      = Decoded (JObj [(''status'', JStr ''OK''), (''result'', JObj [(''name'', JStr ''Acme Parts'')])])"
    by (simp add: acme_world_def acme_provider_def acme_details_def detalhes_params_def
        detalhes_url_def geocode_url_def)
  have b: "provider acme_world (issued acme_world) (detalhes_url, detalhes_params acme_world (JStr ''p9''))
      = Decoded (JObj [(''status'', JStr ''NOT_FOUND'')])"
    by (simp add: acme_world_def acme_provider_def acme_details_def detalhes_params_def
        detalhes_url_def geocode_url_def)
  note t2 = detail_enricher [of acme_world "JStr ''p2''"]
  note t9 = detail_enricher [of acme_world "JStr ''p9''"]
  have 1: "fst (obter_detalhes_por_place_id (JStr ''p2'') acme_world) = JObj [(''name'', JStr ''Acme Parts'')]"
    using t2 a by simp
  have 2: "fst (obter_detalhes_por_place_id (JStr ''p9'') acme_world) = JObj []"
    using t9 b by simp
  have 3: "issued (snd (obter_detalhes_por_place_id (JStr ''p2'') acme_world))
       = [(detalhes_url, detalhes_params acme_world (JStr ''p2''))]"
    using t2 by (simp add: acme_world_def)
  have 4: "read_details (JObj [(''name'', JStr ''Acme Parts'')]) =
       Inr \<lparr>telefone = JStr ''N/A'', website = JStr ''N/A'', razao_social_detalhada = JStr ''Acme Parts''\<rparr>"
    using t2 by simp
  from 1 2 3 4 show ?thesis by simp
qed

subsection \<open>Geocoding and the script\<close>

lemma snd_obter_coordenadas:
  "snd (obter_coordenadas cidade estado w) =
     w\<lparr>issued := issued w @ [(geocode_url, geocode_params w cidade estado)]\<rparr>"
  by (simp add: obter_coordenadas_def http_get_json_def split: fetch.splits sum.splits)

lemma decimal_value_snoc:
  "decimal_value (s @ [c]) = 10 * decimal_value s + ((of_char c :: nat) - 48)"
  by (simp add: decimal_value_def)

lemma nat_str_decimal:
  "nat_str n \<noteq> [] \<and> list_all is_digit (nat_str n) \<and> decimal_value (nat_str n) = n
     \<and> (hd (nat_str n) = CHR ''0'' \<longrightarrow> n = 0)"
proof (induction n rule: nat_str.induct)
  case (1 n)
  show ?case
  proof (cases "n < 10")
    case True
    then have s: "nat_str n = [char_of (48 + n)]" by (simp add: nat_str.simps)
    have o: "(of_char (char_of (48 + n) :: char) :: nat) = 48 + n" using True by simp
    have "char_of (48 + n) = CHR ''0'' \<longrightarrow> n = 0"
    proof
      assume "char_of (48 + n) = CHR ''0''"
      then have "(of_char (char_of (48 + n) :: char) :: nat) = of_char CHR ''0''" by simp
      with o show "n = 0" by simp
    qed
    with s o True show ?thesis by (simp add: is_digit_def decimal_value_def)
  next
    case False
    then have s: "nat_str n = nat_str (n div 10) @ [char_of (48 + n mod 10)]"
      by (subst nat_str.simps) simp
    from False 1 have ih: "nat_str (n div 10) \<noteq> []" "list_all is_digit (nat_str (n div 10))"
      "decimal_value (nat_str (n div 10)) = n div 10"
      "hd (nat_str (n div 10)) = CHR ''0'' \<longrightarrow> n div 10 = 0"
      by simp_all
    have o: "(of_char (char_of (48 + n mod 10) :: char) :: nat) = 48 + n mod 10"
    proof -
      have "48 + n mod 10 < 256" by simp
      then show ?thesis by simp
    qed
    from False have "n div 10 \<noteq> 0" by simp
    with ih(4) have "hd (nat_str (n div 10)) \<noteq> CHR ''0''" by blast
    with ih(1) have h: "hd (nat_str n) \<noteq> CHR ''0''" by (simp add: s)
    have "n mod 10 < 10" by simp
    then have "n mod 10 \<le> 9" by linarith
    with o have d: "is_digit (char_of (48 + n mod 10))" by (simp add: is_digit_def)
    have "10 * (n div 10) + n mod 10 = n" by simp
    with ih o h d show ?thesis
      by (simp add: s decimal_value_snoc)
  qed
qed

text \<open>
  Claim C7. \<open>obter_coordenadas\<close> issues exactly one request, to the geocoder. When the
  status of the answer is OK it returns the latitude and the longitude of the first
  candidate, each as the f-string writes it, joined by a comma; on any other status and
  when the request raises it returns \<open>None\<close>. The function has no exceptional result:
  its whole body after the parameters is inside \<open>try\<close>. What the f-string writes: a
  float as its \<open>repr\<close>, a string as it is, an integer in decimal with a minus sign when
  negative, where the decimal text of a number has digits only, no leading zero, and the
  number for its value.
\<close>

theorem coordinate_resolver:
  "issued (snd (obter_coordenadas cidade estado w))
     = issued w @ [(geocode_url, geocode_params w cidade estado)]
   \<and> (\<forall>dados candidate others geometry location la ln.
        provider w (issued w) (geocode_url, geocode_params w cidade estado) = Decoded dados \<and>
        getitem dados ''status'' = Inr (JStr ''OK'') \<and>
        getitem dados ''results'' = Inr (JArr (candidate # others)) \<and>
        getitem candidate ''geometry'' = Inr geometry \<and>
        getitem geometry ''location'' = Inr location \<and>
        getitem location ''lat'' = Inr la \<and> getitem location ''lng'' = Inr ln
        \<longrightarrow> fst (obter_coordenadas cidade estado w) = Some (py_str w la @ '','' @ py_str w ln))
   \<and> (\<forall>dados.
        provider w (issued w) (geocode_url, geocode_params w cidade estado) = Decoded dados \<and>
        getitem dados ''status'' \<noteq> Inr (JStr ''OK'')
        \<longrightarrow> fst (obter_coordenadas cidade estado w) = None)
   \<and> (provider w (issued w) (geocode_url, geocode_params w cidade estado) = Raises
        \<longrightarrow> fst (obter_coordenadas cidade estado w) = None)
   \<and> (\<forall>s. py_str w (JFloat s) = s)
   \<and> (\<forall>s. py_str w (JStr s) = s)
   \<and> (\<forall>i. py_str w (JInt i) = (if i < 0 then ''-'' else '''') @ nat_str (nat \<bar>i\<bar>))
   \<and> (\<forall>n. nat_str n \<noteq> [] \<and> list_all is_digit (nat_str n) \<and> decimal_value (nat_str n) = n
          \<and> (hd (nat_str n) = CHR ''0'' \<longrightarrow> n = 0))
   \<and> py_str w JNull = ''None'' \<and> py_str w (JBool True) = ''True''
   \<and> py_str w (JBool False) = ''False''"
proof -
  have once: "issued (snd (obter_coordenadas cidade estado w))
     = issued w @ [(geocode_url, geocode_params w cidade estado)]"
    by (simp add: snd_obter_coordenadas)
  have ok: "fst (obter_coordenadas cidade estado w) = Some (py_str w la @ '','' @ py_str w ln)"
    if "provider w (issued w) (geocode_url, geocode_params w cidade estado) = Decoded dados"
      "getitem dados ''status'' = Inr (JStr ''OK'')"
      "getitem dados ''results'' = Inr (JArr (candidate # others))"
      "getitem candidate ''geometry'' = Inr geometry"
      "getitem geometry ''location'' = Inr location"
      "getitem location ''lat'' = Inr la" "getitem location ''lng'' = Inr ln"
    for dados candidate others geometry location la ln
    using that
    by (simp add: obter_coordenadas_def http_get_json_def first_location_def bind_exc_def)
  have bad: "fst (obter_coordenadas cidade estado w) = None"
    if "provider w (issued w) (geocode_url, geocode_params w cidade estado) = Decoded dados"
      "getitem dados ''status'' \<noteq> Inr (JStr ''OK'')"
    for dados
    using that by (simp add: obter_coordenadas_def http_get_json_def split: sum.splits)
  have raises: "fst (obter_coordenadas cidade estado w) = None"
    if "provider w (issued w) (geocode_url, geocode_params w cidade estado) = Raises"
    using that by (simp add: obter_coordenadas_def http_get_json_def)
  have fmt: "py_str w (JFloat s) = s" "py_str w (JStr s) = s"
    "py_str w (JInt i) = (if i < 0 then ''-'' else '''') @ nat_str (nat \<bar>i\<bar>)"
    "py_str w JNull = ''None''" "py_str w (JBool True) = ''True''" "py_str w (JBool False) = ''False''"
    for s i
    by (simp_all add: py_str_def int_str_def)
  from once ok bad raises fmt nat_str_decimal show ?thesis by blast
qed

theorem coordinate_resolver_witness:
  "fst (obter_coordenadas ''Springfield'' ''IL'' acme_world) = Some ''39.78,-89.65''
   \<and> fst (obter_coordenadas ''Philadelphia'' ''PA'' integer_world) = Some ''40,-75''
   \<and> fst (obter_coordenadas ''Springfield'' ''IL'' offline_world) = None
   \<and> issued (snd (obter_coordenadas ''Springfield'' ''IL'' acme_world))
       = [(geocode_url, [(''address'', JStr ''Springfield, IL''), (''key'', JStr ''k'')])]"
proof -
  let ?loc = "JObj [(''lat'', JFloat ''39.78''), (''lng'', JFloat ''-89.65'')]"
  let ?geo = "JObj [(''location'', ?loc)]"
  let ?cand = "JObj [(''geometry'', ?geo)]"
  let ?dados = "JObj [(''status'', JStr ''OK''), (''results'', JArr [?cand])]"
  let ?iloc = "JObj [(''lat'', JInt 40), (''lng'', JInt (- 75))]"
  let ?idados = "JObj [(''status'', JStr ''OK''),
      (''results'', JArr [JObj [(''geometry'', JObj [(''location'', ?iloc)])]])]"
  note t = coordinate_resolver [of "''Springfield''" "''IL''" acme_world]
  note u = coordinate_resolver [of "''Springfield''" "''IL''" offline_world]
  note v = coordinate_resolver [of "''Philadelphia''" "''PA''" integer_world]
  have a: "provider acme_world (issued acme_world)
      (geocode_url, geocode_params acme_world ''Springfield'' ''IL'') = Decoded ?dados"
    by (simp add: acme_world_def acme_provider_def)
  have "fst (obter_coordenadas ''Springfield'' ''IL'' acme_world)
      = Some (py_str acme_world (JFloat ''39.78'') @ '','' @ py_str acme_world (JFloat ''-89.65''))"
    using t a by simp
  with t have 1: "fst (obter_coordenadas ''Springfield'' ''IL'' acme_world) = Some ''39.78,-89.65''"
    by simp
  have b: "provider integer_world (issued integer_world)
      (geocode_url, geocode_params integer_world ''Philadelphia'' ''PA'') = Decoded ?idados"
    by (simp add: integer_world_def)
  have "fst (obter_coordenadas ''Philadelphia'' ''PA'' integer_world)
      = Some (py_str integer_world (JInt 40) @ '','' @ py_str integer_world (JInt (- 75)))"
    using v b by simp
  moreover have "nat_str 40 = ''40''" "nat_str 75 = ''75''"
    by code_simp+
  ultimately have 4: "fst (obter_coordenadas ''Philadelphia'' ''PA'' integer_world) = Some ''40,-75''"
    using v by simp
  have 2: "fst (obter_coordenadas ''Springfield'' ''IL'' offline_world) = None"
    using u by (simp add: offline_world_def)
  have 3: "issued (snd (obter_coordenadas ''Springfield'' ''IL'' acme_world))
       = [(geocode_url, [(''address'', JStr ''Springfield, IL''), (''key'', JStr ''k'')])]"
    using t by (simp add: acme_world_def geocode_params_def)
  from 1 2 3 4 show ?thesis by simp
qed

text \<open>
  Claim C6. When \<open>obter_coordenadas\<close> returns \<open>None\<close> the script ends at once: the
  geocoding request is the only request it has issued, so there is no nearby-search and
  no text-search request, and no file is written.
\<close>

theorem geocoding_failure_aborts:
  assumes "fst (obter_coordenadas cidade estado w) = None"
  shows "\<exists>w'. main cidade estado w = Some (Inr (), w')
           \<and> issued w' = issued w @ [(geocode_url, geocode_params w cidade estado)]
           \<and> filter (\<lambda>r. fst r = nearby_url) (issued w') = filter (\<lambda>r. fst r = nearby_url) (issued w)
           \<and> filter (\<lambda>r. fst r = BASE_URL) (issued w') = filter (\<lambda>r. fst r = BASE_URL) (issued w)
           \<and> files w' = files w"
proof -
  obtain loc w1 where o: "obter_coordenadas cidade estado w = (loc, w1)"
    by (cases "obter_coordenadas cidade estado w")
  with assms have loc: "loc = None" by simp
  from o have w1: "w1 = w\<lparr>issued := issued w @ [(geocode_url, geocode_params w cidade estado)]\<rparr>"
    using snd_obter_coordenadas [of cidade estado w] by simp
  have "main cidade estado w = Some (Inr (), w1)"
    by (simp add: main_def o loc str_arg_def)
  then show ?thesis
    by (simp add: w1 geocode_url_def nearby_url_def BASE_URL_def)
qed

theorem geocoding_failure_aborts_witness:
  "fst (obter_coordenadas ''Springfield'' ''IL'' offline_world) = None
   \<and> (\<exists>w'. main ''Springfield'' ''IL'' offline_world = Some (Inr (), w')
         \<and> issued w' = [(geocode_url, [(''address'', JStr ''Springfield, IL''), (''key'', JNull)])]
         \<and> files w' = [])"
proof -
  have a: "fst (obter_coordenadas ''Springfield'' ''IL'' offline_world) = None"
    by (simp add: obter_coordenadas_def http_get_json_def offline_world_def)
  from geocoding_failure_aborts [OF a] a show ?thesis
    by (auto simp: offline_world_def geocode_params_def)
qed

subsection \<open>What a run changes in the world\<close>

text \<open>
  Processing hits and turning a page only add requests to the log: the page request
  first, then requests for details.
\<close>

lemma process_hit_frame:
  "\<exists>ds. snd (process_hit k h w) = w\<lparr>issued := issued w @ ds\<rparr> \<and> (\<forall>d\<in>set ds. fst d = detalhes_url)"
proof (cases "read_hit k h")
  case (Inl e)
  then have "snd (process_hit k h w) = w\<lparr>issued := issued w @ []\<rparr>"
    by (simp add: process_hit_def)
  then show ?thesis by fastforce
next
  case (Inr hit)
  obtain d w1 where o: "obter_detalhes_por_place_id (place_id hit) w = (d, w1)"
    by (cases "obter_detalhes_por_place_id (place_id hit) w")
  then have w1: "w1 = w\<lparr>issued := issued w @ [(detalhes_url, detalhes_params w (place_id hit))]\<rparr>"
    using snd_obter_detalhes [of "place_id hit" w] by simp
  have "snd (process_hit k h w) = w1"
    by (simp add: process_hit_def Inr o split: sum.splits)
  with w1 show ?thesis by fastforce
qed

lemma process_hits_frame:
  "\<exists>ds. snd (process_hits k hs acc w) = w\<lparr>issued := issued w @ ds\<rparr> \<and> (\<forall>d\<in>set ds. fst d = detalhes_url)"
proof (induction hs arbitrary: acc w)
  case Nil
  have "snd (process_hits k [] acc w) = w\<lparr>issued := issued w @ []\<rparr>" by simp
  then show ?case by fastforce
next
  case (Cons h hs)
  obtain r w1 where ph: "process_hit k h w = (r, w1)" by (cases "process_hit k h w")
  obtain ds1 where w1: "w1 = w\<lparr>issued := issued w @ ds1\<rparr>" and d1: "\<forall>d\<in>set ds1. fst d = detalhes_url"
    using process_hit_frame [of k h w] ph by auto
  show ?case
  proof (cases r)
    case (Inl e)
    then have "snd (process_hits k (h # hs) acc w) = w\<lparr>issued := issued w @ ds1\<rparr>"
      using ph w1 by simp
    with d1 show ?thesis by blast
  next
    case (Inr row)
    obtain ds2 where w2: "snd (process_hits k hs (acc @ [row]) w1) = w1\<lparr>issued := issued w1 @ ds2\<rparr>"
      and d2: "\<forall>d\<in>set ds2. fst d = detalhes_url"
      using Cons.IH [of "acc @ [row]" w1] by auto
    have "snd (process_hits k (h # hs) acc w) = w\<lparr>issued := issued w @ (ds1 @ ds2)\<rparr>"
      using ph Inr w2 w1 by simp
    moreover have "\<forall>d\<in>set (ds1 @ ds2). fst d = detalhes_url" using d1 d2 by auto
    ultimately show ?thesis by blast
  qed
qed

lemma page_turn_frame:
  "\<exists>ds. snd (page_turn url k p tok acc w) = w\<lparr>issued := issued w @ (url, with_pagetoken tok p) # ds\<rparr>
     \<and> (\<forall>d\<in>set ds. fst d = detalhes_url)"
proof -
  let ?w1 = "w\<lparr>issued := issued w @ [(url, with_pagetoken tok p)]\<rparr>"
  let ?P = "\<lambda>w2. \<exists>ds. w2 = w\<lparr>issued := issued w @ (url, with_pagetoken tok p) # ds\<rparr>
     \<and> (\<forall>d\<in>set ds. fst d = detalhes_url)"
  have base: "?P ?w1"
    by (rule exI [of _ "[]"]) simp
  have hits: "?P w2" if "process_hits k hs acc ?w1 = (r, w2)" for hs r w2
  proof -
    obtain ds where "snd (process_hits k hs acc ?w1) = ?w1\<lparr>issued := issued ?w1 @ ds\<rparr>"
      and "\<forall>d\<in>set ds. fst d = detalhes_url"
      using process_hits_frame [of k hs acc ?w1] by auto
    with that show ?thesis by (intro exI [of _ ds]) simp
  qed
  have "snd (page_turn url k p tok acc w) = ?w1
      \<or> (\<exists>hs r. process_hits k hs acc ?w1 = (r, snd (page_turn url k p tok acc w)))"
    by (simp add: page_turn_def http_get_json_def Let_def
        split: fetch.splits sum.splits prod.splits option.splits) blast
  with base hits show ?thesis by metis
qed

subsection \<open>Unfolding the loop\<close>

lemma search_loop_Finished:
  "page_turn url k p tok acc w = (Finished res, w') \<Longrightarrow> search_loop url k p tok acc w = Some (res, w')"
  by (subst search_loop.simps) simp

lemma search_loop_Again:
  "page_turn url k p tok acc w = (Again p' tok' acc', w')
     \<Longrightarrow> search_loop url k p tok acc w = search_loop url k p' tok' acc' w'"
  by (subst search_loop.simps) simp

lemma search_loop_first_request_aux:
  assumes "search_loop url k p tok acc w = Some y"
  shows "\<exists>rest. issued (snd y) = issued w @ (url, with_pagetoken tok p) # rest"
proof (rule search_loop.raw_induct
    [where P = "\<lambda>url k p tok acc w y. \<exists>rest. issued (snd y) = issued w @ (url, with_pagetoken tok p) # rest",
      OF _ assms])
  fix loop url k p tok acc w y
  assume IH: "\<And>url k p tok acc w y. loop url k p tok acc w = Some y
      \<Longrightarrow> \<exists>rest. issued (snd y) = issued w @ (url, with_pagetoken tok p) # rest"
    and step: "(case page_turn url k p tok acc w of
        (Finished resultados', w') \<Rightarrow> Some (resultados', w')
      | (Again params' token resultados', w') \<Rightarrow> loop url k params' token resultados' w') = Some y"
  obtain t w1 where pt: "page_turn url k p tok acc w = (t, w1)"
    by (cases "page_turn url k p tok acc w")
  obtain ds where w1: "w1 = w\<lparr>issued := issued w @ (url, with_pagetoken tok p) # ds\<rparr>"
    using page_turn_frame [of url k p tok acc w] pt by auto
  show "\<exists>rest. issued (snd y) = issued w @ (url, with_pagetoken tok p) # rest"
  proof (cases t)
    case (Finished r)
    with step pt have "snd y = w1" by auto
    with w1 show ?thesis by simp
  next
    case (Again p' tok' acc')
    with step pt have "loop url k p' tok' acc' w1 = Some y" by simp
    from IH [OF this] obtain rest where "issued (snd y) = issued w1 @ (url, with_pagetoken tok' p') # rest"
      by blast
    with w1 show ?thesis by simp
  qed
qed

lemma search_loop_first_request:
  "search_loop url k p tok acc w = Some (res, w')
     \<Longrightarrow> \<exists>rest. issued w' = issued w @ (url, with_pagetoken tok p) # rest"
  using search_loop_first_request_aux [of url k p tok acc w "(res, w')"] by simp

subsection \<open>Evaluating the sample\<close>

lemma urls_distinct [simp]:
  "BASE_URL \<noteq> detalhes_url" "BASE_URL \<noteq> geocode_url" "BASE_URL \<noteq> nearby_url"
  "nearby_url \<noteq> detalhes_url" "nearby_url \<noteq> geocode_url" "nearby_url \<noteq> BASE_URL"
  "detalhes_url \<noteq> geocode_url" "detalhes_url \<noteq> BASE_URL" "detalhes_url \<noteq> nearby_url"
  "geocode_url \<noteq> BASE_URL" "geocode_url \<noteq> nearby_url" "geocode_url \<noteq> detalhes_url"
  by (simp_all add: BASE_URL_def detalhes_url_def geocode_url_def nearby_url_def)

lemma acme_details_request:
  "provider acme_world hist (detalhes_url, detalhes_params w pid) = acme_details pid"
  by (simp add: acme_world_def acme_provider_def detalhes_params_def)

lemma acme_provider_kept [simp]:
  "provider (acme_world\<lparr>issued := rs\<rparr>) = provider acme_world"
  by simp

lemma fst_obter_detalhes:
  "fst (obter_detalhes_por_place_id pid w) =
     (case provider w (issued w) (detalhes_url, detalhes_params w pid) of
        Raises \<Rightarrow> JObj []
      | Decoded dados \<Rightarrow>
          (case getitem dados ''status'' of
             Inl e \<Rightarrow> JObj []
           | Inr status \<Rightarrow>
               if status = JStr ''OK''
               then (case getitem dados ''result'' of Inl e \<Rightarrow> JObj [] | Inr result \<Rightarrow> result)
               else JObj []))"
  by (simp add: obter_detalhes_por_place_id_def http_get_json_def split: fetch.splits sum.splits)

lemma process_hit_eval:
  "process_hit k h w =
     (case read_hit k h of
        Inl e \<Rightarrow> (Inl e, w)
      | Inr hit \<Rightarrow>
          (case read_details (fst (obter_detalhes_por_place_id (place_id hit) w)) of
             Inl e \<Rightarrow> Inl e
           | Inr d \<Rightarrow> Inr (make_row hit d),
           w\<lparr>issued := issued w @ [(detalhes_url, detalhes_params w (place_id hit))]\<rparr>))"
proof (cases "read_hit k h")
  case (Inl e)
  then show ?thesis by (simp add: process_hit_def)
next
  case (Inr hit)
  obtain d w1 where o: "obter_detalhes_por_place_id (place_id hit) w = (d, w1)"
    by (cases "obter_detalhes_por_place_id (place_id hit) w")
  then have "w1 = w\<lparr>issued := issued w @ [(detalhes_url, detalhes_params w (place_id hit))]\<rparr>"
    using snd_obter_detalhes [of "place_id hit" w] by simp
  then show ?thesis
    by (simp add: process_hit_def Inr o split: sum.splits)
qed

lemma acme_textsearch_turn:
  "fst (page_turn BASE_URL ''formatted_address'' ps JNull [] acme_world) = Finished acme_rows"
proof -
  have hit: "read_hit ''formatted_address'' (acme_hit ''formatted_address'' ''Acme Ltda'' ''1 Main St'' ''p1'')
      = Inr \<lparr>nome = JStr ''Acme Ltda'', endereco = JStr ''1 Main St'', place_id = JStr ''p1'',
             lat = JFloat ''39.78'', lng = JFloat ''-89.65''\<rparr>"
    by (simp add: read_hit_def read_coord_def acme_hit_def bind_exc_def)
  have page: "provider acme_world (issued acme_world) (BASE_URL, ps) =
      Decoded (JObj [(''status'', JStr ''OK''),
          (''results'', JArr [acme_hit ''formatted_address'' ''Acme Ltda'' ''1 Main St'' ''p1''])])"
    by (simp add: acme_world_def acme_provider_def)
  show ?thesis
    by (simp add: page_turn_def http_get_json_def with_pagetoken_def page bind_exc_def Let_def
        process_hit_eval hit fst_obter_detalhes acme_details_request acme_details_def
        read_details_def make_row_def acme_rows_def NA_def)
qed

lemma acme_textsearch:
  "\<exists>w'. buscar_textsearch q loc raio cid est acme_world = Some (DataFrame acme_rows, w')"
proof -
  let ?ps = "textsearch_params acme_world q loc raio cid est"
  have "page_turn BASE_URL ''formatted_address'' ?ps JNull [] acme_world
      = (Finished acme_rows, snd (page_turn BASE_URL ''formatted_address'' ?ps JNull [] acme_world))"
    using acme_textsearch_turn [of ?ps] by (simp add: prod_eq_iff)
  from search_loop_Finished [OF this] show ?thesis
    by (simp add: buscar_textsearch_def run_search_def)
qed

subsection \<open>The parameters of the text search\<close>

text \<open>
  Claim C10, as amended. The parameters of the text search: the query is the name,
  followed by " in " and the city when the city is a non-empty string, and by ", " and
  the state when the state is a non-empty string; the location, when it is a non-empty
  string, and the radius, when it is not zero, are parameters \<open>location\<close> and \<open>radius\<close>
  of the text search too. An argument that is \<open>None\<close>, the empty string or zero is
  left out, as the \<open>if\<close> tests of the code take it for false. This dict is the
  parameters of the request the first turn of the loop issues, whether the run returns
  or not, and so of the first request of a run that returns.
\<close>

theorem textsearch_parameters:
  "textsearch_params w razao_social localizacao raio cidade estado =
     [(''query'', JStr (razao_social
         @ (case cidade of None \<Rightarrow> [] | Some c \<Rightarrow> if c = [] then [] else '' in '' @ c)
         @ (case estado of None \<Rightarrow> [] | Some e \<Rightarrow> if e = [] then [] else '', '' @ e))),
      (''key'', API_KEY w)]
     @ (case localizacao of None \<Rightarrow> [] | Some l \<Rightarrow> if l = [] then [] else [(''location'', JStr l)])
     @ (case raio of None \<Rightarrow> [] | Some r \<Rightarrow> if r = 0 then [] else [(''radius'', JInt r)])
   \<and> (\<exists>rest. issued (snd (page_turn BASE_URL ''formatted_address''
                 (textsearch_params w razao_social localizacao raio cidade estado) JNull [] w))
          = issued w @ (BASE_URL, textsearch_params w razao_social localizacao raio cidade estado) # rest)
   \<and> (\<forall>df w'. buscar_textsearch razao_social localizacao raio cidade estado w = Some (df, w')
        \<longrightarrow> (\<exists>rest. issued w' = issued w @
               (BASE_URL, textsearch_params w razao_social localizacao raio cidade estado) # rest))"
proof -
  have closed: "textsearch_params w razao_social localizacao raio cidade estado =
     [(''query'', JStr (razao_social
         @ (case cidade of None \<Rightarrow> [] | Some c \<Rightarrow> if c = [] then [] else '' in '' @ c)
         @ (case estado of None \<Rightarrow> [] | Some e \<Rightarrow> if e = [] then [] else '', '' @ e))),
      (''key'', API_KEY w)]
     @ (case localizacao of None \<Rightarrow> [] | Some l \<Rightarrow> if l = [] then [] else [(''location'', JStr l)])
     @ (case raio of None \<Rightarrow> [] | Some r \<Rightarrow> if r = 0 then [] else [(''radius'', JInt r)])"
    by (simp add: textsearch_params_def add_to_query_def str_arg_def int_arg_def Let_def
        split: option.splits)
  have turn: "\<exists>rest. issued (snd (page_turn BASE_URL ''formatted_address''
                 (textsearch_params w razao_social localizacao raio cidade estado) JNull [] w))
          = issued w @ (BASE_URL, textsearch_params w razao_social localizacao raio cidade estado) # rest"
    using page_turn_frame [of BASE_URL "''formatted_address''"
        "textsearch_params w razao_social localizacao raio cidade estado" JNull "[]" w]
    by (auto simp: with_pagetoken_def)
  have first: "\<exists>rest. issued w' = issued w @
               (BASE_URL, textsearch_params w razao_social localizacao raio cidade estado) # rest"
    if "buscar_textsearch razao_social localizacao raio cidade estado w = Some (df, w')" for df w'
  proof -
    from that obtain res where
      "search_loop BASE_URL ''formatted_address''
         (textsearch_params w razao_social localizacao raio cidade estado) JNull [] w = Some (res, w')"
      by (auto simp: buscar_textsearch_def run_search_def)
    from search_loop_first_request [OF this] show ?thesis
      by (simp add: with_pagetoken_def)
  qed
  from closed turn first show ?thesis by blast
qed

text \<open>
  The claim as stated fails: a radius of zero and an empty city are provided, and the
  request has no \<open>radius\<close> and its query no " in ".
\<close>

theorem textsearch_parameters_counterexample:
  "textsearch_params acme_world ''X'' (Some ''1,2'') (Some 0) (Some '''') (Some ''SP'')
     = [(''query'', JStr ''X, SP''), (''key'', JStr ''k''), (''location'', JStr ''1,2'')]"
  by (simp add: textsearch_params_def add_to_query_def str_arg_def int_arg_def Let_def acme_world_def)

theorem textsearch_parameters_witness:
  "textsearch_params acme_world ''Acme Ltda'' (Some ''39.78,-89.65'') (Some 23000) (Some ''Springfield'') (Some ''IL'')
     = [(''query'', JStr ''Acme Ltda in Springfield, IL''), (''key'', JStr ''k''),
        (''location'', JStr ''39.78,-89.65''), (''radius'', JInt 23000)]
   \<and> (\<exists>df w' rest.
        buscar_textsearch ''Acme Ltda'' (Some ''39.78,-89.65'') (Some 23000) (Some ''Springfield'') (Some ''IL'') acme_world
          = Some (df, w')
        \<and> issued w' =
            (BASE_URL, [(''query'', JStr ''Acme Ltda in Springfield, IL''), (''key'', JStr ''k''),
                        (''location'', JStr ''39.78,-89.65''), (''radius'', JInt 23000)]) # rest)"
proof -
  note t = textsearch_parameters [of acme_world "''Acme Ltda''" "Some ''39.78,-89.65''" "Some 23000"
      "Some ''Springfield''" "Some ''IL''"]
  from t have ps: "textsearch_params acme_world ''Acme Ltda'' (Some ''39.78,-89.65'') (Some 23000) (Some ''Springfield'') (Some ''IL'')
     = [(''query'', JStr ''Acme Ltda in Springfield, IL''), (''key'', JStr ''k''),
        (''location'', JStr ''39.78,-89.65''), (''radius'', JInt 23000)]"
    by (simp add: acme_world_def)
  obtain w' where run: "buscar_textsearch ''Acme Ltda'' (Some ''39.78,-89.65'') (Some 23000) (Some ''Springfield'') (Some ''IL'') acme_world
      = Some (DataFrame acme_rows, w')"
    using acme_textsearch by blast
  with t obtain rest where "issued w' = issued acme_world @
      (BASE_URL, textsearch_params acme_world ''Acme Ltda'' (Some ''39.78,-89.65'') (Some 23000) (Some ''Springfield'') (Some ''IL'')) # rest"
    by blast
  then have "issued w' = (BASE_URL, [(''query'', JStr ''Acme Ltda in Springfield, IL''), (''key'', JStr ''k''),
                        (''location'', JStr ''39.78,-89.65''), (''radius'', JInt 23000)]) # rest"
    by (simp add: ps) (simp add: acme_world_def)
  with ps run show ?thesis by blast
qed

subsection \<open>Column labels\<close>

lemma Endereco_neq [simp]:
  "Endereco \<noteq> ''Nome''" "Endereco \<noteq> ''Telefone''" "Endereco \<noteq> ''Website''"
  "''Nome'' \<noteq> Endereco" "''Telefone'' \<noteq> Endereco" "''Website'' \<noteq> Endereco"
  "Endereco \<noteq> ''REGIAO''" "Endereco \<noteq> ''NOME DA EMPRESA''" "Endereco \<noteq> ''NOME DO CONTATO''"
  "Endereco \<noteq> ''TELEFONE''" "Endereco \<noteq> ''SITE''"
  by (simp_all add: Endereco_def)

subsection \<open>The exported table\<close>

text \<open>
  Claim C8. For a table with the four columns of the result rows, \<open>salvar_resultados\<close>
  writes a table with exactly the columns REGIAO, NOME DA EMPRESA, NOME DO CONTATO,
  TELEFONE, SITE in this order; in every row REGIAO is the address, NOME DA EMPRESA the
  name, TELEFONE the telephone, SITE the website and NOME DO CONTATO the empty string,
  and there are as many rows as in the table given.
\<close>

theorem exporter_table:
  assumes "columns df = [''Nome'', Endereco, ''Telefone'', ''Website'']"
    and "rows df = map (\<lambda>(n, e, t, s). [n, e, t, s]) cells"
  shows "salvar_resultados df nome_arquivo cidade w =
     (Inr (), w\<lparr>files := files w @
        [(os_path_join (script_path w) nome_arquivo,
          \<lparr>columns = [''REGIAO'', ''NOME DA EMPRESA'', ''NOME DO CONTATO'', ''TELEFONE'', ''SITE''],
           rows = map (\<lambda>(n, e, t, s). [e, n, JStr '''', t, s]) cells\<rparr>)]\<rparr>)
     \<and> length (map (\<lambda>(n, e, t, s). [e, n, JStr '''', t, s]) cells) = length (rows df)"
  using assms
  by (simp add: salvar_resultados_def rename_columns_def set_column_def select_columns_def
      export_columns_def reindex_def Let_def split_def)

theorem exporter_table_witness:
  "columns (DataFrame acme_rows) = [''Nome'', Endereco, ''Telefone'', ''Website'']
   \<and> rows (DataFrame acme_rows) =
       [[JStr ''Acme Ltda'', JStr ''1 Main St'', JStr ''555-0100'', JStr ''https://acme.example'']]
   \<and> fst (salvar_resultados (DataFrame acme_rows) ''out.xlsx'' ''Springfield'' acme_world) = Inr ()
   \<and> files (snd (salvar_resultados (DataFrame acme_rows) ''out.xlsx'' ''Springfield'' acme_world)) =
       [(''/app/out.xlsx'',
         \<lparr>columns = [''REGIAO'', ''NOME DA EMPRESA'', ''NOME DO CONTATO'', ''TELEFONE'', ''SITE''],
          rows = [[JStr ''1 Main St'', JStr ''Acme Ltda'', JStr '''', JStr ''555-0100'',
                   JStr ''https://acme.example'']]\<rparr>)]"
proof -
  have c: "columns (DataFrame acme_rows) = [''Nome'', Endereco, ''Telefone'', ''Website'']"
    by (simp add: DataFrame_def acme_rows_def)
  have r: "rows (DataFrame acme_rows) = map (\<lambda>(n, e, t, s). [n, e, t, s])
      [(JStr ''Acme Ltda'', JStr ''1 Main St'', JStr ''555-0100'', JStr ''https://acme.example'')]"
    by (simp add: DataFrame_def acme_rows_def)
  note t = exporter_table [OF c r, of "''out.xlsx''" "''Springfield''" acme_world]
  have p: "os_path_join (script_path acme_world) ''out.xlsx'' = ''/app/out.xlsx''"
    by (simp add: os_path_join_def acme_world_def)
  from t have "files (snd (salvar_resultados (DataFrame acme_rows) ''out.xlsx'' ''Springfield'' acme_world)) =
       [(''/app/out.xlsx'',
         \<lparr>columns = [''REGIAO'', ''NOME DA EMPRESA'', ''NOME DO CONTATO'', ''TELEFONE'', ''SITE''],
          rows = [[JStr ''1 Main St'', JStr ''Acme Ltda'', JStr '''', JStr ''555-0100'',
                   JStr ''https://acme.example'']]\<rparr>)]"
    by (simp add: p) (simp add: acme_world_def)
  moreover from t have "fst (salvar_resultados (DataFrame acme_rows) ''out.xlsx'' ''Springfield'' acme_world) = Inr ()"
    by simp
  ultimately show ?thesis using c r by simp
qed

subsection \<open>The fields of a row\<close>

text \<open>
  Claim C2, as amended. A hit processed without exception gives a row with exactly the
  four fields Nome, \<open>Endereco\<close>, Telefone and Website, in this order. Each field holds
  the value the payload has under its key (the hit for the name and the address, the
  details for the telephone and the website), whatever that value is, and "N/A" when the
  key is absent or the details are empty. So no field is missing, and a field is
  \<open>null\<close> only when the payload has an explicit \<open>null\<close> under its key.
\<close>

theorem row_fields:
  assumes "fst (process_hit address_key resultado w) = Inr row"
  shows "\<exists>hit detalhes.
      resultado = JObj hit
      \<and> detalhes = fst (obter_detalhes_por_place_id
            (case map_of hit ''place_id'' of None \<Rightarrow> JStr ''N/A'' | Some v \<Rightarrow> v) w)
      \<and> row =
          [(''Nome'', case map_of hit ''name'' of None \<Rightarrow> JStr ''N/A'' | Some v \<Rightarrow> v),
           (Endereco, case map_of hit address_key of None \<Rightarrow> JStr ''N/A'' | Some v \<Rightarrow> v),
           (''Telefone'', case detalhes of
                JObj d \<Rightarrow> (case map_of d ''formatted_phone_number'' of None \<Rightarrow> JStr ''N/A'' | Some v \<Rightarrow> v)
              | _ \<Rightarrow> JStr ''N/A''),
           (''Website'', case detalhes of
                JObj d \<Rightarrow> (case map_of d ''website'' of None \<Rightarrow> JStr ''N/A'' | Some v \<Rightarrow> v)
              | _ \<Rightarrow> JStr ''N/A'')]"
proof -
  from assms obtain h where rh: "read_hit address_key resultado = Inr h"
    by (cases "read_hit address_key resultado") (simp_all add: process_hit_eval)
  then obtain hit where res: "resultado = JObj hit"
    by (cases resultado) (simp_all add: read_hit_def bind_exc_def)
  from rh res have n: "nome h = (case map_of hit ''name'' of None \<Rightarrow> JStr ''N/A'' | Some v \<Rightarrow> v)"
    and e: "endereco h = (case map_of hit address_key of None \<Rightarrow> JStr ''N/A'' | Some v \<Rightarrow> v)"
    and p: "place_id h = (case map_of hit ''place_id'' of None \<Rightarrow> JStr ''N/A'' | Some v \<Rightarrow> v)"
    by (auto simp: read_hit_def bind_exc_def NA_def split: sum.splits)
  define detalhes where "detalhes = fst (obter_detalhes_por_place_id (place_id h) w)"
  from assms rh obtain d where rd: "read_details detalhes = Inr d" and row: "row = make_row h d"
    by (cases "read_details detalhes") (simp_all add: process_hit_eval detalhes_def)
  from rd have t: "telefone d = (case detalhes of
                JObj d \<Rightarrow> (case map_of d ''formatted_phone_number'' of None \<Rightarrow> JStr ''N/A'' | Some v \<Rightarrow> v)
              | _ \<Rightarrow> JStr ''N/A'')"
    and s: "website d = (case detalhes of
                JObj d \<Rightarrow> (case map_of d ''website'' of None \<Rightarrow> JStr ''N/A'' | Some v \<Rightarrow> v)
              | _ \<Rightarrow> JStr ''N/A'')"
    by (cases detalhes; auto simp: read_details_def bind_exc_def NA_def split: if_splits)+
  show ?thesis
    using res row n e t s by (simp add: make_row_def detalhes_def p)
qed

text \<open>
  The claim as stated fails: a hit whose name is an explicit \<open>null\<close> is processed
  without exception, and the name of its row is \<open>null\<close>.
\<close>

theorem row_field_null_counterexample:
  "fst (process_hit ''formatted_address'' null_name_hit offline_world) =
     Inr [(''Nome'', JNull), (Endereco, JStr ''1 Main St''),
          (''Telefone'', JStr ''N/A''), (''Website'', JStr ''N/A'')]"
  by (simp add: process_hit_eval null_name_hit_def read_hit_def read_coord_def bind_exc_def
      fst_obter_detalhes offline_world_def read_details_def make_row_def NA_def)

theorem row_fields_witness:
  "fst (process_hit ''vicinity'' (acme_hit ''vicinity'' ''Acme Parts'' ''2 Side St'' ''p2'') acme_world) =
     Inr [(''Nome'', JStr ''Acme Parts''), (Endereco, JStr ''2 Side St''),
          (''Telefone'', JStr ''N/A''), (''Website'', JStr ''N/A'')]"
proof -
  let ?h = "acme_hit ''vicinity'' ''Acme Parts'' ''2 Side St'' ''p2''"
  have "\<exists>r. fst (process_hit ''vicinity'' ?h acme_world) = Inr r"
    by (simp add: process_hit_eval acme_hit_def read_hit_def read_coord_def bind_exc_def
      fst_obter_detalhes acme_details_request acme_details_def read_details_def NA_def)
  then obtain r where ok: "fst (process_hit ''vicinity'' ?h acme_world) = Inr r" ..
  from row_fields [OF ok] have "r = [(''Nome'', JStr ''Acme Parts''), (Endereco, JStr ''2 Side St''),
          (''Telefone'', JStr ''N/A''), (''Website'', JStr ''N/A'')]"
    by (auto simp: acme_hit_def fst_obter_detalhes acme_details_request acme_details_def)
  with ok show ?thesis by simp
qed

subsection \<open>Tables of result rows\<close>

lemma set_unique_from: "set (unique_from seen xs) = set xs - set seen"
  by (induction xs arbitrary: seen) auto

lemma distinct_unique_from: "distinct (unique_from seen xs)"
  by (induction xs arbitrary: seen) (auto simp: set_unique_from)

lemma first_index_Cons:
  "first_index (x # xs) y = (if y = x then 0 else Suc (first_index xs y))"
  by (simp add: first_index_def)

lemma unique_from_order:
  "sorted_wrt (<) (map (first_index xs) (unique_from seen xs))"
proof (induction xs arbitrary: seen)
  case Nil
  show ?case by simp
next
  case (Cons x xs)
  have shift: "map (first_index (x # xs)) ys = map (\<lambda>y. Suc (first_index xs y)) ys"
    if "x \<notin> set ys" for ys
    using that by (induction ys) (auto simp: first_index_Cons)
  have suc: "sorted_wrt (<) (map (\<lambda>y. Suc (first_index xs y)) ys)"
    if "sorted_wrt (<) (map (first_index xs) ys)" for ys
    using that by (simp add: sorted_wrt_map)
  show ?case
  proof (cases "x \<in> set seen")
    case True
    then have "x \<notin> set (unique_from seen xs)" by (simp add: set_unique_from)
    with True show ?thesis using suc [OF Cons.IH [of seen]] by (simp add: shift)
  next
    case False
    have notin: "x \<notin> set (unique_from (x # seen) xs)" by (simp add: set_unique_from)
    have "map (first_index (x # xs)) (unique_from seen (x # xs))
        = 0 # map (\<lambda>y. Suc (first_index xs y)) (unique_from (x # seen) xs)"
      using False shift [OF notin] by (simp add: first_index_def)
    then show ?thesis
      using suc [OF Cons.IH [of "x # seen"]] by simp
  qed
qed

lemma unique_from_covered: "set xs \<subseteq> set seen \<Longrightarrow> unique_from seen xs = []"
  by (induction xs arbitrary: seen) auto

lemma result_row_shape:
  assumes "result_row r"
  obtains n e t s where
    "r = [(''Nome'', n), (Endereco, e), (''Telefone'', t), (''Website'', s)]"
  using assms unfolding result_row_def
  by (auto simp: map_eq_Cons_conv)

lemma DataFrame_result_rows:
  assumes "list_all result_row rs"
  shows "DataFrame rs =
     \<lparr>columns = (if rs = [] then [] else [''Nome'', Endereco, ''Telefone'', ''Website'']),
      rows = map (map snd) rs\<rparr>"
proof -
  let ?four = "[''Nome'', Endereco, ''Telefone'', ''Website'']"
  have keys: "set (concat (map (map fst) rs)) \<subseteq> set ?four"
    using assms by (induction rs) (auto simp: result_row_def)
  have cols: "unique_from [] (concat (map (map fst) rs)) = (if rs = [] then [] else ?four)"
  proof (cases rs)
    case Nil
    then show ?thesis by simp
  next
    case (Cons r rs')
    with assms have r: "map fst r = ?four" and rest: "list_all result_row rs'"
      by (simp_all add: result_row_def)
    have "set (concat (map (map fst) rs')) \<subseteq> set ?four"
      using rest by (induction rs') (auto simp: result_row_def)
    then have "set (concat (map (map fst) rs')) \<subseteq> set (rev ?four)"
      by (simp only: set_rev)
    then have "unique_from (rev ?four) (concat (map (map fst) rs')) = []"
      by (rule unique_from_covered)
    then show ?thesis using Cons r by simp
  qed
  have cells: "map (\<lambda>c. case map_of r c of None \<Rightarrow> NaN | Some v \<Rightarrow> v) ?four = map snd r"
    if "result_row r" for r
    using that by (elim result_row_shape) simp
  have "map (\<lambda>r. map (\<lambda>c. case map_of r c of None \<Rightarrow> NaN | Some v \<Rightarrow> v)
          (if rs = [] then [] else ?four)) rs = map (map snd) rs"
    using assms cells by (cases rs) (auto simp: list_all_iff)
  then show ?thesis
    by (simp add: DataFrame_def cols Let_def)
qed

lemma reindex_same:
  "result_row r \<Longrightarrow>
     reindex [''Nome'', Endereco, ''Telefone'', ''Website''] [''Nome'', Endereco, ''Telefone'', ''Website'']
       (map snd r) = map snd r"
  by (elim result_row_shape) (simp add: reindex_def)

lemma pd_concat_result_rows:
  assumes "list_all result_row ts" "list_all result_row ns"
  shows "pd_concat (DataFrame ts) (DataFrame ns) = DataFrame (ts @ ns)"
proof -
  have same: "map (reindex [''Nome'', Endereco, ''Telefone'', ''Website'']
        [''Nome'', Endereco, ''Telefone'', ''Website'']) (map (map snd) rs) = map (map snd) rs"
    if "list_all result_row rs" for rs
    using that by (induction rs) (simp_all add: reindex_same)
  from assms have both: "list_all result_row (ts @ ns)" by simp
  show ?thesis
    using same [OF assms(1)] same [OF assms(2)]
    by (simp add: DataFrame_result_rows [OF assms(1)] DataFrame_result_rows [OF assms(2)]
        DataFrame_result_rows [OF both] pd_concat_def Let_def)
qed

subsection \<open>The rows of a run\<close>

lemma process_hit_result_row:
  "fst (process_hit k h w) = Inr r \<Longrightarrow> result_row r"
  by (auto simp: process_hit_eval result_row_def make_row_def split: sum.splits)

lemma process_hits_result_rows:
  "list_all result_row acc \<Longrightarrow> list_all result_row (snd (fst (process_hits k hs acc w)))"
proof (induction hs arbitrary: acc w)
  case Nil
  then show ?case by simp
next
  case (Cons h hs)
  obtain r w1 where ph: "process_hit k h w = (r, w1)" by (cases "process_hit k h w")
  show ?case
  proof (cases r)
    case (Inl e)
    with ph Cons.prems show ?thesis by simp
  next
    case (Inr row)
    with ph have "result_row row" using process_hit_result_row [of k h w row] by simp
    with Cons.prems have "list_all result_row (acc @ [row])" by simp
    from Cons.IH [OF this, of w1] show ?thesis using ph Inr by simp
  qed
qed

lemma page_turn_eval:
  "page_turn url k p tok acc w =
     (let w1 = w\<lparr>issued := issued w @ [(url, with_pagetoken tok p)]\<rparr>
      in case provider w (issued w) (url, with_pagetoken tok p) of
           Raises \<Rightarrow> (Finished acc, w1)
         | Decoded dados \<Rightarrow>
             (case getitem dados ''status'' of
                Inl e \<Rightarrow> (Finished acc, w1)
              | Inr status \<Rightarrow>
                  if status = JStr ''OK''
                  then (case bind_exc (getitem dados ''results'') py_iter of
                          Inl e \<Rightarrow> (Finished acc, w1)
                        | Inr hits \<Rightarrow>
                            (let out = process_hits k hits acc w1;
                                 token = (case dict_get dados ''next_page_token'' JNull of
                                            Inl e \<Rightarrow> JNull | Inr t \<Rightarrow> t)
                             in (if fst (fst out) = None \<and> truthy token
                                 then Again (with_pagetoken tok p) token (snd (fst out))
                                 else Finished (snd (fst out)),
                                 snd out)))
                  else (Finished acc, w1)))"
  by (auto simp: page_turn_def http_get_json_def Let_def
      split: fetch.splits sum.splits prod.splits option.splits)

lemma page_turn_result_rows:
  assumes "list_all result_row acc"
  shows "list_all result_row (turn_rows (fst (page_turn url k p tok acc w)))"
  using assms process_hits_result_rows [OF assms]
  by (simp add: page_turn_eval Let_def turn_rows_def split: fetch.splits sum.splits)

lemma search_loop_result_rows_aux:
  assumes "search_loop url k p tok acc w = Some y"
  shows "list_all result_row acc \<longrightarrow> list_all result_row (fst y)"
proof (rule search_loop.raw_induct
    [where P = "\<lambda>url k p tok acc w y. list_all result_row acc \<longrightarrow> list_all result_row (fst y)",
      OF _ assms])
  fix loop url k p tok acc w y
  assume IH: "\<And>url k p tok acc w y. loop url k p tok acc w = Some y
      \<Longrightarrow> list_all result_row acc \<longrightarrow> list_all result_row (fst y)"
    and step: "(case page_turn url k p tok acc w of
        (Finished resultados', w') \<Rightarrow> Some (resultados', w')
      | (Again params' token resultados', w') \<Rightarrow> loop url k params' token resultados' w') = Some y"
  obtain t w1 where pt: "page_turn url k p tok acc w = (t, w1)"
    by (cases "page_turn url k p tok acc w")
  show "list_all result_row acc \<longrightarrow> list_all result_row (fst y)"
  proof
    assume acc: "list_all result_row acc"
    from page_turn_result_rows [OF acc, of url k p tok w] pt
    have t: "list_all result_row (turn_rows t)" by simp
    show "list_all result_row (fst y)"
    proof (cases t)
      case (Finished r)
      with step pt t show ?thesis by (auto simp: turn_rows_def)
    next
      case (Again p' tok' acc')
      with step pt have "loop url k p' tok' acc' w1 = Some y" by simp
      from IH [OF this] t Again show ?thesis by (simp add: turn_rows_def)
    qed
  qed
qed

lemma run_search_rows:
  assumes "run_search url k p w = Some (df, w')"
  obtains rs where "search_loop url k p JNull [] w = Some (rs, w')" "df = DataFrame rs"
    "list_all result_row rs"
proof -
  from assms obtain rs where l: "search_loop url k p JNull [] w = Some (rs, w')" and d: "df = DataFrame rs"
    by (auto simp: run_search_def)
  from search_loop_result_rows_aux [OF l] have "list_all result_row rs" by simp
  with l d that show ?thesis by blast
qed

lemma acme_details_any:
  "acme_provider hist (detalhes_url, detalhes_params w' pid) = acme_details pid"
  by (simp add: acme_provider_def detalhes_params_def)

lemma acme_nearby_first:
  assumes "provider w = acme_provider" "map_of ps ''pagetoken'' = None"
  shows "fst (page_turn nearby_url ''vicinity'' ps JNull acc w) = Again ps (JStr ''page2'') (acc @ acme_rows)"
proof -
  have page: "acme_provider hist (nearby_url, ps) =
      Decoded (JObj [(''status'', JStr ''OK''),
                      (''results'', JArr [acme_hit ''vicinity'' ''Acme Ltda'' ''1 Main St'' ''p1'']),
                      (''next_page_token'', JStr ''page2'')])"
    for hist using assms by (simp add: acme_provider_def)
  have hit: "read_hit ''vicinity'' (acme_hit ''vicinity'' ''Acme Ltda'' ''1 Main St'' ''p1'')
      = Inr \<lparr>nome = JStr ''Acme Ltda'', endereco = JStr ''1 Main St'', place_id = JStr ''p1'',
             lat = JFloat ''39.78'', lng = JFloat ''-89.65''\<rparr>"
    by (simp add: read_hit_def read_coord_def acme_hit_def bind_exc_def)
  show ?thesis
    by (simp add: assms(1) page_turn_eval with_pagetoken_def page bind_exc_def Let_def
        process_hit_eval hit fst_obter_detalhes acme_details_any acme_details_def
        read_details_def make_row_def acme_rows_def NA_def)
qed

lemma acme_nearby_second:
  assumes "provider w = acme_provider"
  shows "fst (page_turn nearby_url ''vicinity'' ps (JStr ''page2'') acc w) = Finished (acc @ [parts_row])"
proof -
  have page: "acme_provider hist (nearby_url, AList.update ''pagetoken'' (JStr ''page2'') ps) =
      Decoded (JObj [(''status'', JStr ''OK''),
                      (''results'', JArr [acme_hit ''vicinity'' ''Acme Parts'' ''2 Side St'' ''p2''])])"
    for hist by (simp add: acme_provider_def update_conv')
  have hit: "read_hit ''vicinity'' (acme_hit ''vicinity'' ''Acme Parts'' ''2 Side St'' ''p2'')
      = Inr \<lparr>nome = JStr ''Acme Parts'', endereco = JStr ''2 Side St'', place_id = JStr ''p2'',
             lat = JFloat ''39.78'', lng = JFloat ''-89.65''\<rparr>"
    by (simp add: read_hit_def read_coord_def acme_hit_def bind_exc_def)
  show ?thesis
    by (simp add: assms(1) page_turn_eval with_pagetoken_def page bind_exc_def Let_def
        process_hit_eval hit fst_obter_detalhes acme_details_any acme_details_def
        read_details_def make_row_def parts_row_def NA_def)
qed

lemma provider_page_turn [simp]:
  "provider (snd (page_turn url k p tok acc w)) = provider w"
  using page_turn_frame [of url k p tok acc w] by auto

lemma acme_nearby_loop:
  assumes "provider w = acme_provider" "map_of ps ''pagetoken'' = None"
  shows "\<exists>w'. search_loop nearby_url ''vicinity'' ps JNull [] w = Some (acme_rows @ [parts_row], w')"
proof -
  let ?t1 = "page_turn nearby_url ''vicinity'' ps JNull [] w"
  let ?t2 = "page_turn nearby_url ''vicinity'' ps (JStr ''page2'') acme_rows (snd ?t1)"
  have 1: "?t1 = (Again ps (JStr ''page2'') acme_rows, snd ?t1)"
    using acme_nearby_first [OF assms, of "[]"] by (simp add: prod_eq_iff)
  have "provider (snd ?t1) = acme_provider" using assms(1) by simp
  from acme_nearby_second [OF this, of ps acme_rows]
  have 2: "?t2 = (Finished (acme_rows @ [parts_row]), snd ?t2)"
    by (simp add: prod_eq_iff)
  show ?thesis
    using search_loop_Again [OF 1] search_loop_Finished [OF 2] by simp
qed

lemma acme_textsearch_run:
  "\<exists>w'. buscar_textsearch q loc raio cid est acme_world = Some (DataFrame acme_rows, w')
     \<and> provider w' = acme_provider \<and> API_KEY w' = JStr ''k''"
proof -
  let ?ps = "textsearch_params acme_world q loc raio cid est"
  let ?t = "page_turn BASE_URL ''formatted_address'' ?ps JNull [] acme_world"
  have t: "?t = (Finished acme_rows, snd ?t)"
    using acme_textsearch_turn [of ?ps] by (simp add: prod_eq_iff)
  obtain ds where "snd ?t = acme_world\<lparr>issued := issued acme_world @ (BASE_URL, with_pagetoken JNull ?ps) # ds\<rparr>"
    using page_turn_frame [of BASE_URL "''formatted_address''" ?ps JNull "[]" acme_world] by blast
  then have "provider (snd ?t) = acme_provider \<and> API_KEY (snd ?t) = JStr ''k''"
    by (simp add: acme_world_def)
  with search_loop_Finished [OF t] show ?thesis
    by (simp add: buscar_textsearch_def run_search_def)
qed

subsection \<open>The aggregator\<close>

lemma text_cell_hashable: "text_cell v \<Longrightarrow> hashable v"
  by (cases v) simp_all

lemma text_cells_hashable:
  "list_all (list_all text_cell) rs \<Longrightarrow> list_all (list_all hashable) rs"
  by (auto simp: list_all_iff text_cell_hashable)

text \<open>
  Claim C1, as amended. \<open>buscar_empresas_por_razao_social\<close> runs the text search and
  then the nearby search with the same name, location and radius. When every cell of the
  two tables is a string or \<open>None\<close>, it returns the rows of the text search followed by
  those of the nearby search with of equal rows only the first kept: no row is twice in
  the result, the result has the same rows as the two tables together, and its rows
  stand in the order of their first occurrence there. When a cell is a list or a dict,
  \<open>drop_duplicates\<close> raises \<open>TypeError\<close>, which nothing catches.
\<close>

theorem aggregator_keeps_first:
  assumes trun: "buscar_textsearch razao_social localizacao raio cidade estado w = Some (text_table, w1)"
    and nrun: "buscar_nearbysearch razao_social localizacao raio w1 = Some (nearby_table, w2)"
  shows "(list_all (list_all text_cell) (rows text_table @ rows nearby_table) \<longrightarrow>
       (\<exists>df. buscar_empresas_por_razao_social razao_social localizacao raio cidade estado w
            = Some (Inr df, w2)
         \<and> distinct (rows df)
         \<and> set (rows df) = set (rows text_table @ rows nearby_table)
         \<and> sorted_wrt (<) (map (first_index (rows text_table @ rows nearby_table)) (rows df))))
     \<and> (\<not> list_all (list_all hashable) (rows text_table @ rows nearby_table) \<longrightarrow>
          buscar_empresas_por_razao_social razao_social localizacao raio cidade estado w
            = Some (Inl TypeError, w2))"
proof -
  from trun obtain ts where t: "text_table = DataFrame ts" and tr: "list_all result_row ts"
    unfolding buscar_textsearch_def by (elim run_search_rows)
  from nrun obtain ns where n: "nearby_table = DataFrame ns" and nr: "list_all result_row ns"
    unfolding buscar_nearbysearch_def by (elim run_search_rows)
  from tr nr have both: "list_all result_row (ts @ ns)" by simp
  have cat: "pd_concat text_table nearby_table = DataFrame (ts @ ns)"
    by (simp add: t n pd_concat_result_rows [OF tr nr])
  have all: "rows (DataFrame (ts @ ns)) = rows text_table @ rows nearby_table"
    by (simp add: t n DataFrame_result_rows [OF tr] DataFrame_result_rows [OF nr]
        DataFrame_result_rows [OF both])
  let ?df = "(DataFrame (ts @ ns))\<lparr>rows := unique_from [] (rows text_table @ rows nearby_table)\<rparr>"
  have ok: "buscar_empresas_por_razao_social razao_social localizacao raio cidade estado w
            = Some (Inr ?df, w2)"
    if "list_all (list_all hashable) (rows text_table @ rows nearby_table)"
    using that by (simp add: buscar_empresas_por_razao_social_def trun nrun cat drop_duplicates_def all)
  have bad: "buscar_empresas_por_razao_social razao_social localizacao raio cidade estado w
            = Some (Inl TypeError, w2)"
    if "\<not> list_all (list_all hashable) (rows text_table @ rows nearby_table)"
    using that by (simp add: buscar_empresas_por_razao_social_def trun nrun cat drop_duplicates_def all)
  have d: "distinct (rows ?df)" by (simp add: distinct_unique_from)
  have s: "set (rows ?df) = set (rows text_table @ rows nearby_table)"
    by (simp add: set_unique_from)
  have o: "sorted_wrt (<) (map (first_index (rows text_table @ rows nearby_table)) (rows ?df))"
    using unique_from_order [of "rows text_table @ rows nearby_table" "[]"] by simp
  show ?thesis
  proof (intro conjI impI)
    assume "list_all (list_all text_cell) (rows text_table @ rows nearby_table)"
    from ok [OF text_cells_hashable [OF this]] d s o
    show "\<exists>df. buscar_empresas_por_razao_social razao_social localizacao raio cidade estado w
            = Some (Inr df, w2)
         \<and> distinct (rows df)
         \<and> set (rows df) = set (rows text_table @ rows nearby_table)
         \<and> sorted_wrt (<) (map (first_index (rows text_table @ rows nearby_table)) (rows df))"
      by blast
  next
    assume "\<not> list_all (list_all hashable) (rows text_table @ rows nearby_table)"
    from bad [OF this]
    show "buscar_empresas_por_razao_social razao_social localizacao raio cidade estado w
            = Some (Inl TypeError, w2)" .
  qed
qed

lemma list_name_turn:
  assumes "provider w = two_page_provider (Decoded list_name_page) Raises"
    and "map_of ps ''pagetoken'' = None" and "url \<noteq> detalhes_url" and "k \<noteq> ''name''"
  shows "fst (page_turn url k ps JNull [] w) =
     Finished [[(''Nome'', JArr [JStr ''Acme'', JStr ''Ltda'']), (Endereco, JStr ''N/A''),
                (''Telefone'', JStr ''N/A''), (''Website'', JStr ''N/A'')]]"
proof -
  have page: "two_page_provider a b hist (url, ps) = a" for a b hist
    using assms(2,3) by (simp add: two_page_provider_def)
  have det: "two_page_provider a b hist (detalhes_url, detalhes_params w' pid) = acme_details pid"
    for a b hist w' pid
    by (simp add: two_page_provider_def detalhes_params_def)
  show ?thesis
    using assms(4)
    by (simp add: assms(1) page_turn_eval with_pagetoken_def page list_name_page_def bind_exc_def
        Let_def process_hit_eval read_hit_def read_coord_def fst_obter_detalhes det acme_details_def
        read_details_def make_row_def NA_def)
qed

text \<open>
  The claim as stated fails: a hit whose name is a list gives a row the aggregator
  cannot deduplicate, and it raises instead of returning a table.
\<close>

theorem aggregator_unhashable_counterexample:
  "map_option fst (buscar_empresas_por_razao_social ''Acme'' None None None None
      (two_page_world (Decoded list_name_page) Raises)) = Some (Inl TypeError)"
proof -
  let ?w = "two_page_world (Decoded list_name_page) Raises"
  let ?row = "[(''Nome'', JArr [JStr ''Acme'', JStr ''Ltda'']), (Endereco, JStr ''N/A''),
                (''Telefone'', JStr ''N/A''), (''Website'', JStr ''N/A'')]"
  let ?tp = "textsearch_params ?w ''Acme'' None None None None"
  let ?t = "page_turn BASE_URL ''formatted_address'' ?tp JNull [] ?w"
  have p: "provider ?w = two_page_provider (Decoded list_name_page) Raises"
    by (simp add: two_page_world_def)
  have "map_of ?tp ''pagetoken'' = None"
    by (simp add: textsearch_params_def str_arg_def int_arg_def)
  from list_name_turn [OF p this, of BASE_URL "''formatted_address''"]
  have t: "?t = (Finished [?row], snd ?t)" by (simp add: prod_eq_iff)
  from search_loop_Finished [OF t]
  have ts: "buscar_textsearch ''Acme'' None None None None ?w = Some (DataFrame [?row], snd ?t)"
    by (simp add: buscar_textsearch_def run_search_def)
  let ?np = "nearby_params (snd ?t) ''Acme'' None None"
  let ?n = "page_turn nearby_url ''vicinity'' ?np JNull [] (snd ?t)"
  have p1: "provider (snd ?t) = two_page_provider (Decoded list_name_page) Raises"
    using p by simp
  have "map_of ?np ''pagetoken'' = None" by (simp add: nearby_params_def)
  from list_name_turn [OF p1 this, of nearby_url "''vicinity''"]
  have n: "?n = (Finished [?row], snd ?n)" by (simp add: prod_eq_iff)
  from search_loop_Finished [OF n]
  have ns: "buscar_nearbysearch ''Acme'' None None (snd ?t) = Some (DataFrame [?row], snd ?n)"
    by (simp add: buscar_nearbysearch_def run_search_def)
  have "drop_duplicates (pd_concat (DataFrame [?row]) (DataFrame [?row])) = Inl TypeError"
    by (simp add: DataFrame_def pd_concat_def drop_duplicates_def reindex_def Let_def)
  with ts ns show ?thesis
    by (simp add: buscar_empresas_por_razao_social_def)
qed

theorem aggregator_keeps_first_witness:
  "\<exists>df w2. buscar_empresas_por_razao_social ''Acme Ltda'' (Some ''39.78,-89.65'') (Some 23000)
        (Some ''Springfield'') (Some ''IL'') acme_world = Some (Inr df, w2)
     \<and> distinct (rows df)
     \<and> set (rows df) =
         {[JStr ''Acme Ltda'', JStr ''1 Main St'', JStr ''555-0100'', JStr ''https://acme.example''],
          [JStr ''Acme Parts'', JStr ''2 Side St'', JStr ''N/A'', JStr ''N/A'']}"
proof -
  obtain w1 where t: "buscar_textsearch ''Acme Ltda'' (Some ''39.78,-89.65'') (Some 23000)
        (Some ''Springfield'') (Some ''IL'') acme_world = Some (DataFrame acme_rows, w1)"
    and p1: "provider w1 = acme_provider"
    using acme_textsearch_run by blast
  have "map_of (nearby_params w1 ''Acme Ltda'' (Some ''39.78,-89.65'') (Some 23000)) ''pagetoken'' = None"
    by (simp add: nearby_params_def)
  from acme_nearby_loop [OF p1 this] obtain w2 where
    n: "buscar_nearbysearch ''Acme Ltda'' (Some ''39.78,-89.65'') (Some 23000) w1
        = Some (DataFrame (acme_rows @ [parts_row]), w2)"
    by (auto simp: buscar_nearbysearch_def run_search_def)
  have r1: "rows (DataFrame acme_rows) =
      [[JStr ''Acme Ltda'', JStr ''1 Main St'', JStr ''555-0100'', JStr ''https://acme.example'']]"
    by (simp add: DataFrame_def acme_rows_def)
  have r2: "rows (DataFrame (acme_rows @ [parts_row])) =
      [[JStr ''Acme Ltda'', JStr ''1 Main St'', JStr ''555-0100'', JStr ''https://acme.example''],
       [JStr ''Acme Parts'', JStr ''2 Side St'', JStr ''N/A'', JStr ''N/A'']]"
    by (simp add: DataFrame_def acme_rows_def parts_row_def)
  have h: "list_all (list_all text_cell)
      (rows (DataFrame acme_rows) @ rows (DataFrame (acme_rows @ [parts_row])))"
    by (simp add: r1 r2)
  from aggregator_keeps_first [OF t n] h show ?thesis
    by (auto simp: r1 r2)
qed

subsection \<open>Providers that differ in the name of the details\<close>

lemma map_of_hide:
  "map_of (map (\<lambda>kv. if fst kv = ''result'' then (fst kv, without_name (snd kv)) else kv) kvs) k
     = map_option (\<lambda>v. if k = ''result'' then without_name v else v) (map_of kvs k)"
  by (induction kvs) auto

lemma map_of_without_name:
  "k \<noteq> ''name'' \<Longrightarrow> map_of (filter (\<lambda>kv. fst kv \<noteq> ''name'') kvs) k = map_of kvs k"
  by (induction kvs) auto

lemma details_of_hide:
  assumes "hide_detail_name r = hide_detail_name r'"
  shows "without_name (details_of r) = without_name (details_of r')"
proof (cases r)
  case Raises
  with assms have "r' = Raises" by (cases r' rule: hide_detail_name.cases) auto
  with Raises show ?thesis by simp
next
  case (Decoded d)
  show ?thesis
  proof (cases d)
    case (JObj kvs)
    with Decoded assms obtain kvs' where r': "r' = Decoded (JObj kvs')"
      and eq: "map (\<lambda>kv. if fst kv = ''result'' then (fst kv, without_name (snd kv)) else kv) kvs
             = map (\<lambda>kv. if fst kv = ''result'' then (fst kv, without_name (snd kv)) else kv) kvs'"
      by (cases r' rule: hide_detail_name.cases) auto
    from eq have st: "map_of kvs ''status'' = map_of kvs' ''status''"
      using map_of_hide [of kvs "''status''"] map_of_hide [of kvs' "''status''"]
      by (simp add: option.map_ident)
    from eq have res: "map_option without_name (map_of kvs ''result'')
        = map_option without_name (map_of kvs' ''result'')"
      using map_of_hide [of kvs "''result''"] map_of_hide [of kvs' "''result''"] by simp
    show ?thesis
      using st res
      by (auto simp: details_of_def Decoded JObj r' split: option.splits)
  qed (use Decoded assms in \<open>cases r' rule: hide_detail_name.cases; auto\<close>)+
qed

lemma read_details_without_name:
  assumes "without_name d = without_name d'"
  shows "map_sum id (\<lambda>v. (telefone v, website v)) (read_details d)
       = map_sum id (\<lambda>v. (telefone v, website v)) (read_details d')"
proof (cases d)
  case (JObj kvs)
  with assms obtain kvs' where d': "d' = JObj kvs'"
    and eq: "filter (\<lambda>kv. fst kv \<noteq> ''name'') kvs = filter (\<lambda>kv. fst kv \<noteq> ''name'') kvs'"
    by (cases d') auto
  have obj: "map_sum id (\<lambda>v. (telefone v, website v)) (read_details (JObj xs)) =
      Inr (case map_of (filter (\<lambda>kv. fst kv \<noteq> ''name'') xs) ''formatted_phone_number'' of None \<Rightarrow> NA | Some v \<Rightarrow> v,
           case map_of (filter (\<lambda>kv. fst kv \<noteq> ''name'') xs) ''website'' of None \<Rightarrow> NA | Some v \<Rightarrow> v)" for xs
    by (cases xs) (simp_all add: read_details_def bind_exc_def map_of_without_name)
  show ?thesis by (simp only: JObj d' obj eq)
qed (use assms in \<open>cases d'; auto\<close>)+

lemma fst_obter_detalhes_of:
  "fst (obter_detalhes_por_place_id pid w) =
     details_of (provider w (issued w) (detalhes_url, detalhes_params w pid))"
  by (simp add: fst_obter_detalhes details_of_def)

lemma row_of_details:
  assumes "map_sum id (\<lambda>v. (telefone v, website v)) (read_details d)
       = map_sum id (\<lambda>v. (telefone v, website v)) (read_details d')"
  shows "(case read_details d of Inl e \<Rightarrow> Inl e | Inr v \<Rightarrow> Inr (make_row hit v))
       = (case read_details d' of Inl e \<Rightarrow> Inl e | Inr v \<Rightarrow> Inr (make_row hit v))"
  using assms
  by (cases "read_details d"; cases "read_details d'") (simp_all add: make_row_def)

lemma process_hit_variant:
  assumes "detail_name_variant (provider w) q"
  shows "process_hit k h (w\<lparr>provider := q\<rparr>)
       = (fst (process_hit k h w), (snd (process_hit k h w))\<lparr>provider := q\<rparr>)"
proof (cases "read_hit k h")
  case (Inl e)
  then show ?thesis by (simp add: process_hit_eval)
next
  case (Inr hit)
  let ?req = "(detalhes_url, detalhes_params w (place_id hit))"
  have "hide_detail_name (q (issued w) ?req) = hide_detail_name (provider w (issued w) ?req)"
    using assms by (simp add: detail_name_variant_def)
  from details_of_hide [OF this]
  have "without_name (fst (obter_detalhes_por_place_id (place_id hit) (w\<lparr>provider := q\<rparr>)))
      = without_name (fst (obter_detalhes_por_place_id (place_id hit) w))"
    by (simp add: fst_obter_detalhes_of detalhes_params_def)
  from row_of_details [OF read_details_without_name [OF this]]
  show ?thesis
    by (simp add: process_hit_eval Inr detalhes_params_def)
qed

lemma provider_process_hit [simp]:
  "provider (snd (process_hit k h w)) = provider w"
  using process_hit_frame [of k h w] by auto

lemma process_hits_variant:
  assumes "detail_name_variant (provider w) q"
  shows "process_hits k hs acc (w\<lparr>provider := q\<rparr>)
       = (fst (process_hits k hs acc w), (snd (process_hits k hs acc w))\<lparr>provider := q\<rparr>)"
  using assms
proof (induction hs arbitrary: acc w)
  case Nil
  show ?case by simp
next
  case (Cons h hs)
  obtain r w1 where ph: "process_hit k h w = (r, w1)" by (cases "process_hit k h w")
  then have p1: "provider w1 = provider w"
    using provider_process_hit [of k h w] by simp
  have phq: "process_hit k h (w\<lparr>provider := q\<rparr>) = (r, w1\<lparr>provider := q\<rparr>)"
    using process_hit_variant [OF Cons.prems, of k h] ph by simp
  show ?case
  proof (cases r)
    case (Inl e)
    with ph phq show ?thesis by simp
  next
    case (Inr row)
    have "detail_name_variant (provider w1) q" using Cons.prems p1 by simp
    from Cons.IH [OF this, of "acc @ [row]"] show ?thesis
      using ph phq Inr by simp
  qed
qed

lemma page_turn_variant:
  assumes "detail_name_variant (provider w) q" "url \<noteq> detalhes_url"
  shows "page_turn url k p tok acc (w\<lparr>provider := q\<rparr>)
       = (fst (page_turn url k p tok acc w), (snd (page_turn url k p tok acc w))\<lparr>provider := q\<rparr>)"
proof -
  let ?w1 = "w\<lparr>issued := issued w @ [(url, with_pagetoken tok p)]\<rparr>"
  have answer: "q (issued w) (url, with_pagetoken tok p) = provider w (issued w) (url, with_pagetoken tok p)"
    using assms by (simp add: detail_name_variant_def)
  have "detail_name_variant (provider ?w1) q" using assms(1) by simp
  have swap: "w\<lparr>provider := q, issued := issued w @ [(url, with_pagetoken tok p)]\<rparr>
      = ?w1\<lparr>provider := q\<rparr>"
    by simp
  from process_hits_variant [OF \<open>detail_name_variant (provider ?w1) q\<close>]
  have hits: "process_hits k hs acc (w\<lparr>provider := q, issued := issued w @ [(url, with_pagetoken tok p)]\<rparr>)
      = (fst (process_hits k hs acc ?w1), (snd (process_hits k hs acc ?w1))\<lparr>provider := q\<rparr>)" for hs
    by (simp only: swap)
  show ?thesis
    by (simp add: page_turn_eval answer hits Let_def split: fetch.splits sum.splits)
qed

lemma search_loop_variant_aux:
  assumes "search_loop url k p tok acc w = Some y"
  shows "\<forall>q. detail_name_variant (provider w) q \<longrightarrow> url \<noteq> detalhes_url \<longrightarrow>
           search_loop url k p tok acc (w\<lparr>provider := q\<rparr>) = Some (fst y, (snd y)\<lparr>provider := q\<rparr>)"
proof (rule search_loop.raw_induct
    [where P = "\<lambda>url k p tok acc w y. \<forall>q. detail_name_variant (provider w) q \<longrightarrow> url \<noteq> detalhes_url \<longrightarrow>
           search_loop url k p tok acc (w\<lparr>provider := q\<rparr>) = Some (fst y, (snd y)\<lparr>provider := q\<rparr>)",
      OF _ assms])
  fix loop url k p tok acc w y
  assume IH: "\<And>url k p tok acc w y. loop url k p tok acc w = Some y
      \<Longrightarrow> \<forall>q. detail_name_variant (provider w) q \<longrightarrow> url \<noteq> detalhes_url \<longrightarrow>
           search_loop url k p tok acc (w\<lparr>provider := q\<rparr>) = Some (fst y, (snd y)\<lparr>provider := q\<rparr>)"
    and step: "(case page_turn url k p tok acc w of
        (Finished resultados', w') \<Rightarrow> Some (resultados', w')
      | (Again params' token resultados', w') \<Rightarrow> loop url k params' token resultados' w') = Some y"
  obtain t w1 where pt: "page_turn url k p tok acc w = (t, w1)"
    by (cases "page_turn url k p tok acc w")
  then have p1: "provider w1 = provider w"
    using provider_page_turn [of url k p tok acc w] by simp
  show "\<forall>q. detail_name_variant (provider w) q \<longrightarrow> url \<noteq> detalhes_url \<longrightarrow>
           search_loop url k p tok acc (w\<lparr>provider := q\<rparr>) = Some (fst y, (snd y)\<lparr>provider := q\<rparr>)"
  proof (intro allI impI)
    fix q
    assume v: "detail_name_variant (provider w) q" and u: "url \<noteq> detalhes_url"
    have ptq: "page_turn url k p tok acc (w\<lparr>provider := q\<rparr>) = (t, w1\<lparr>provider := q\<rparr>)"
      using page_turn_variant [OF v u, of k p tok acc] pt by simp
    show "search_loop url k p tok acc (w\<lparr>provider := q\<rparr>) = Some (fst y, (snd y)\<lparr>provider := q\<rparr>)"
    proof (cases t)
      case (Finished r)
      with step pt have "y = (r, w1)" by simp
      with search_loop_Finished [of url k p tok acc "w\<lparr>provider := q\<rparr>" r "w1\<lparr>provider := q\<rparr>"]
        ptq Finished show ?thesis by simp
    next
      case (Again p' tok' acc')
      with step pt have "loop url k p' tok' acc' w1 = Some y" by simp
      from IH [OF this] v u p1
      have "search_loop url k p' tok' acc' (w1\<lparr>provider := q\<rparr>) = Some (fst y, (snd y)\<lparr>provider := q\<rparr>)"
        by simp
      with search_loop_Again [of url k p tok acc "w\<lparr>provider := q\<rparr>" p' tok' acc' "w1\<lparr>provider := q\<rparr>"]
        ptq Again show ?thesis by simp
    qed
  qed
qed

lemma detail_name_variant_sym:
  "detail_name_variant p q \<Longrightarrow> detail_name_variant q p"
  by (simp add: detail_name_variant_def)

lemma search_loop_variant:
  assumes "detail_name_variant (provider w) q" "url \<noteq> detalhes_url"
  shows "search_loop url k p tok acc (w\<lparr>provider := q\<rparr>)
       = map_option (\<lambda>(res, w'). (res, w'\<lparr>provider := q\<rparr>)) (search_loop url k p tok acc w)"
proof (cases "search_loop url k p tok acc w")
  case (Some y)
  from search_loop_variant_aux [OF this] assms Some show ?thesis
    by (simp add: split_def)
next
  case None
  have "search_loop url k p tok acc (w\<lparr>provider := q\<rparr>) = None"
  proof (rule ccontr)
    assume "search_loop url k p tok acc (w\<lparr>provider := q\<rparr>) \<noteq> None"
    then obtain y where y: "search_loop url k p tok acc (w\<lparr>provider := q\<rparr>) = Some y" by blast
    have "detail_name_variant (provider (w\<lparr>provider := q\<rparr>)) (provider w)"
      using assms(1) by (simp add: detail_name_variant_sym)
    with search_loop_variant_aux [OF y, rule_format, of "provider w"] assms(2)
    have "search_loop url k p tok acc (w\<lparr>provider := q, provider := provider w\<rparr>) \<noteq> None"
      by simp
    with None show False by simp
  qed
  with None show ?thesis by simp
qed

subsection \<open>The world after a run\<close>

lemma search_loop_frame_aux:
  assumes "search_loop url k p tok acc w = Some y"
  shows "\<exists>rs. snd y = w\<lparr>issued := issued w @ rs\<rparr>"
proof (rule search_loop.raw_induct
    [where P = "\<lambda>url k p tok acc w y. \<exists>rs. snd y = w\<lparr>issued := issued w @ rs\<rparr>", OF _ assms])
  fix loop url k p tok acc w y
  assume IH: "\<And>url k p tok acc w y. loop url k p tok acc w = Some y
      \<Longrightarrow> \<exists>rs. snd y = w\<lparr>issued := issued w @ rs\<rparr>"
    and step: "(case page_turn url k p tok acc w of
        (Finished resultados', w') \<Rightarrow> Some (resultados', w')
      | (Again params' token resultados', w') \<Rightarrow> loop url k params' token resultados' w') = Some y"
  obtain t w1 where pt: "page_turn url k p tok acc w = (t, w1)"
    by (cases "page_turn url k p tok acc w")
  obtain ds where w1: "w1 = w\<lparr>issued := issued w @ (url, with_pagetoken tok p) # ds\<rparr>"
    using page_turn_frame [of url k p tok acc w] pt by auto
  show "\<exists>rs. snd y = w\<lparr>issued := issued w @ rs\<rparr>"
  proof (cases t)
    case (Finished r)
    with step pt have "snd y = w1" by auto
    with w1 show ?thesis by blast
  next
    case (Again p' tok' acc')
    with step pt have "loop url k p' tok' acc' w1 = Some y" by simp
    from IH [OF this] obtain rs where "snd y = w1\<lparr>issued := issued w1 @ rs\<rparr>" by blast
    with w1 have "snd y = w\<lparr>issued := issued w @ ((url, with_pagetoken tok p) # ds @ rs)\<rparr>" by simp
    then show ?thesis by blast
  qed
qed

lemma run_search_frame:
  assumes "run_search url k p w = Some (df, w')"
  shows "provider w' = provider w \<and> API_KEY w' = API_KEY w"
proof -
  from assms obtain rs where "search_loop url k p JNull [] w = Some (rs, w')"
    by (auto simp: run_search_def)
  from search_loop_frame_aux [OF this] show ?thesis by auto
qed

lemma run_search_variant:
  assumes "detail_name_variant (provider w) q" "url \<noteq> detalhes_url"
  shows "run_search url k p (w\<lparr>provider := q\<rparr>)
       = map_option (\<lambda>(df, w'). (df, w'\<lparr>provider := q\<rparr>)) (run_search url k p w)"
  by (simp add: run_search_def search_loop_variant [OF assms] option.map_comp comp_def split_def)

lemma without_put_name: "without_name (put_name n v) = without_name v"
  by (cases v) simp_all

lemma hide_with_detail_name: "hide_detail_name (with_detail_name n r) = hide_detail_name r"
  by (cases "(n, r)" rule: with_detail_name.cases) (simp_all add: without_put_name)

lemma renaming_provider_variant: "detail_name_variant p (renaming_provider n p)"
  by (simp add: detail_name_variant_def renaming_provider_def hide_with_detail_name)

subsection \<open>The name of the details\<close>

text \<open>
  Claim C9. The name of a row is the \<open>name\<close> of the search hit itself ("N/A" when the
  hit has none). The name the details carry is read into a local variable and used
  nowhere: when two providers differ at most in the names of their details, the text
  search, the nearby search and the aggregator return the same tables with both.
\<close>

theorem detail_name_unused:
  assumes "detail_name_variant (provider w) q"
  shows "map_option fst (buscar_textsearch razao_social localizacao raio cidade estado (w\<lparr>provider := q\<rparr>))
       = map_option fst (buscar_textsearch razao_social localizacao raio cidade estado w)
     \<and> map_option fst (buscar_nearbysearch razao_social localizacao raio (w\<lparr>provider := q\<rparr>))
       = map_option fst (buscar_nearbysearch razao_social localizacao raio w)
     \<and> map_option fst (buscar_empresas_por_razao_social razao_social localizacao raio cidade estado
           (w\<lparr>provider := q\<rparr>))
       = map_option fst (buscar_empresas_por_razao_social razao_social localizacao raio cidade estado w)
     \<and> (\<forall>address_key hit row. fst (process_hit address_key (JObj hit) w) = Inr row \<longrightarrow>
           map_of row ''Nome'' = Some (case map_of hit ''name'' of None \<Rightarrow> JStr ''N/A'' | Some v \<Rightarrow> v))"
proof -
  have ts: "buscar_textsearch razao_social localizacao raio cidade estado (w\<lparr>provider := q\<rparr>)
      = map_option (\<lambda>(df, w'). (df, w'\<lparr>provider := q\<rparr>))
          (buscar_textsearch razao_social localizacao raio cidade estado w)"
    using run_search_variant [OF assms, of BASE_URL]
    by (simp add: buscar_textsearch_def textsearch_params_def)
  have ns: "buscar_nearbysearch razao_social localizacao raio (v\<lparr>provider := q\<rparr>)
      = map_option (\<lambda>(df, w'). (df, w'\<lparr>provider := q\<rparr>))
          (buscar_nearbysearch razao_social localizacao raio v)"
    if "provider v = provider w" for v
    using run_search_variant [of v q nearby_url] assms that
    by (simp add: buscar_nearbysearch_def nearby_params_def)
  have 1: "map_option fst (buscar_textsearch razao_social localizacao raio cidade estado (w\<lparr>provider := q\<rparr>))
       = map_option fst (buscar_textsearch razao_social localizacao raio cidade estado w)"
    by (simp add: ts option.map_comp comp_def split_def)
  have 2: "map_option fst (buscar_nearbysearch razao_social localizacao raio (w\<lparr>provider := q\<rparr>))
       = map_option fst (buscar_nearbysearch razao_social localizacao raio w)"
    by (simp add: ns option.map_comp comp_def split_def)
  have 3: "map_option fst (buscar_empresas_por_razao_social razao_social localizacao raio cidade estado
           (w\<lparr>provider := q\<rparr>))
       = map_option fst (buscar_empresas_por_razao_social razao_social localizacao raio cidade estado w)"
  proof (cases "buscar_textsearch razao_social localizacao raio cidade estado w")
    case None
    then show ?thesis by (simp add: buscar_empresas_por_razao_social_def ts)
  next
    case (Some a)
    obtain t w1 where a: "a = (t, w1)" by (cases a)
    with Some have "provider w1 = provider w"
      using run_search_frame [of BASE_URL _ _ w t w1] by (simp add: buscar_textsearch_def)
    from ns [OF this] show ?thesis
      by (cases "buscar_nearbysearch razao_social localizacao raio w1")
        (auto simp: buscar_empresas_por_razao_social_def ts Some a)
  qed
  have 4: "map_of row ''Nome'' = Some (case map_of hit ''name'' of None \<Rightarrow> JStr ''N/A'' | Some v \<Rightarrow> v)"
    if "fst (process_hit address_key (JObj hit) w) = Inr row" for address_key hit row
    using that
    by (auto simp: process_hit_eval read_hit_def read_coord_def bind_exc_def make_row_def NA_def
        split: sum.splits)
  from 1 2 3 4 show ?thesis by blast
qed

theorem detail_name_unused_witness:
  "map_option fst (buscar_textsearch ''Acme Ltda'' None None None None
      (acme_world\<lparr>provider := renaming_provider (JStr ''Another name'') acme_provider\<rparr>))
     = Some (DataFrame acme_rows)
   \<and> renaming_provider (JStr ''Another name'') acme_provider []
        (detalhes_url, detalhes_params acme_world (JStr ''p2''))
     = Decoded (JObj [(''status'', JStr ''OK''), (''result'', JObj [(''name'', JStr ''Another name'')])])"
proof -
  have v: "detail_name_variant (provider acme_world) (renaming_provider (JStr ''Another name'') acme_provider)"
    using renaming_provider_variant [of acme_provider] by (simp add: acme_world_def)
  obtain w' where "buscar_textsearch ''Acme Ltda'' None None None None acme_world
      = Some (DataFrame acme_rows, w')"
    using acme_textsearch_run by blast
  with detail_name_unused [OF v, of "''Acme Ltda''" None None None None]
  have 1: "map_option fst (buscar_textsearch ''Acme Ltda'' None None None None
      (acme_world\<lparr>provider := renaming_provider (JStr ''Another name'') acme_provider\<rparr>))
     = Some (DataFrame acme_rows)"
    by simp
  have 2: "renaming_provider (JStr ''Another name'') acme_provider []
        (detalhes_url, detalhes_params acme_world (JStr ''p2''))
     = Decoded (JObj [(''status'', JStr ''OK''), (''result'', JObj [(''name'', JStr ''Another name'')])])"
    by (simp add: renaming_provider_def acme_details_any acme_details_def)
  from 1 2 show ?thesis by simp
qed

subsection \<open>Pagination\<close>

lemma process_hits_no_exception:
  assumes "\<And>hist req. fst req = detalhes_url \<Longrightarrow> readable_details (provider w hist req)"
    and "list_all (readable_hit k) hits"
  shows "fst (fst (process_hits k hits acc w)) = None"
  using assms
proof (induction hits arbitrary: acc w)
  case Nil
  show ?case by simp
next
  case (Cons h hs)
  from Cons.prems(2) obtain hit where rh: "read_hit k h = Inr hit"
    by (cases "read_hit k h") (simp_all add: readable_hit_def)
  have "readable_details (provider w (issued w) (detalhes_url, detalhes_params w (place_id hit)))"
    using Cons.prems(1) by simp
  then obtain d where rd: "read_details (fst (obter_detalhes_por_place_id (place_id hit) w)) = Inr d"
    by (cases "read_details (fst (obter_detalhes_por_place_id (place_id hit) w))")
      (simp_all add: readable_details_def fst_obter_detalhes_of)
  let ?w1 = "w\<lparr>issued := issued w @ [(detalhes_url, detalhes_params w (place_id hit))]\<rparr>"
  have ph: "process_hit k h w = (Inr (make_row hit d), ?w1)"
    by (simp add: process_hit_eval rh rd)
  have "\<And>hist req. fst req = detalhes_url \<Longrightarrow> readable_details (provider ?w1 hist req)"
    using Cons.prems(1) by simp
  from Cons.IH [OF this, of "acc @ [make_row hit d]"] Cons.prems(2)
  show ?case by (simp add: ph)
qed

lemma process_hits_requests:
  assumes "url \<noteq> detalhes_url"
  shows "requests_to url (issued (snd (process_hits k hs acc w))) = requests_to url (issued w)"
proof -
  obtain ds where "snd (process_hits k hs acc w) = w\<lparr>issued := issued w @ ds\<rparr>"
    and "\<forall>d\<in>set ds. fst d = detalhes_url"
    using process_hits_frame [of k hs acc w] by blast
  with assms show ?thesis by (auto simp: requests_to_def filter_empty_conv)
qed

lemma provider_process_hits [simp]:
  "provider (snd (process_hits k hs acc w)) = provider w"
  using process_hits_frame [of k hs acc w] by auto

lemma update_with_pagetoken:
  "AList.update ''pagetoken'' t (with_pagetoken tok p) = AList.update ''pagetoken'' t p"
  by (simp add: with_pagetoken_def)

lemma readable_page_turn:
  assumes url: "url \<noteq> detalhes_url"
    and details: "\<And>hist req. fst req = detalhes_url \<Longrightarrow> readable_details (provider w hist req)"
    and answer: "provider w (issued w) (url, with_pagetoken tok p) = Decoded d"
    and page: "readable_page k d"
  shows "\<exists>acc' w'. page_turn url k p tok acc w =
          (if truthy (page_token d) then Again (with_pagetoken tok p) (page_token d) acc' else Finished acc', w')
        \<and> provider w' = provider w
        \<and> requests_to url (issued w') = requests_to url (issued w) @ [(url, with_pagetoken tok p)]"
proof -
  let ?w1 = "w\<lparr>issued := issued w @ [(url, with_pagetoken tok p)]\<rparr>"
  from page obtain hits where st: "getitem d ''status'' = Inr (JStr ''OK'')"
    and hs: "bind_exc (getitem d ''results'') py_iter = Inr hits"
    and rd: "list_all (readable_hit k) hits"
    by (cases "page_hits d") (auto simp: readable_page_def page_hits_def)
  have "\<And>hist req. fst req = detalhes_url \<Longrightarrow> readable_details (provider ?w1 hist req)"
    using details by simp
  from process_hits_no_exception [OF this rd, of acc]
  have none: "fst (fst (process_hits k hits acc ?w1)) = None" .
  have pt: "page_turn url k p tok acc w =
      (if truthy (page_token d)
       then Again (with_pagetoken tok p) (page_token d) (snd (fst (process_hits k hits acc ?w1)))
       else Finished (snd (fst (process_hits k hits acc ?w1))),
       snd (process_hits k hits acc ?w1))"
    by (simp add: page_turn_eval answer st hs none Let_def page_token_def)
  have "requests_to url (issued (snd (process_hits k hits acc ?w1)))
      = requests_to url (issued w) @ [(url, with_pagetoken tok p)]"
    by (simp add: process_hits_requests [OF url]) (simp add: requests_to_def)
  with pt show ?thesis by auto
qed

lemma search_loop_pages:
  assumes url: "url \<noteq> detalhes_url"
    and details: "\<And>hist req. fst req = detalhes_url \<Longrightarrow> readable_details (provider w hist req)"
    and pages: "pages \<noteq> []"
    and ok: "list_all (readable_page k) pages"
    and tokens: "list_all (\<lambda>d. truthy (page_token d)) (butlast pages)"
    and final: "\<not> truthy (page_token (last pages))"
    and first: "\<And>hist. length (requests_to url hist) = n \<Longrightarrow>
        provider w hist (url, with_pagetoken tok p) = Decoded (hd pages)"
    and later: "\<And>i hist. Suc i < length pages \<Longrightarrow> length (requests_to url hist) = n + Suc i \<Longrightarrow>
        provider w hist (url, AList.update ''pagetoken'' (page_token (pages ! i)) p) = Decoded (pages ! Suc i)"
    and count: "length (requests_to url (issued w)) = n"
  shows "\<exists>res w'. search_loop url k p tok acc w = Some (res, w')
      \<and> requests_to url (issued w') = requests_to url (issued w) @ (url, with_pagetoken tok p)
           # map (\<lambda>d. (url, AList.update ''pagetoken'' (page_token d) p)) (butlast pages)"
  using details pages ok tokens final first later count
proof (induction pages arbitrary: w tok p acc n)
  case Nil
  then show ?case by simp
next
  case (Cons d ds)
  have answer: "provider w (issued w) (url, with_pagetoken tok p) = Decoded d"
    using Cons.prems(6) [of "issued w"] Cons.prems(8) by simp
  from Cons.prems(3) have page: "readable_page k d" by simp
  from readable_page_turn [OF url Cons.prems(1) answer page, of acc]
  obtain acc' w1 where pt: "page_turn url k p tok acc w =
          (if truthy (page_token d) then Again (with_pagetoken tok p) (page_token d) acc' else Finished acc', w1)"
    and p1: "provider w1 = provider w"
    and r1: "requests_to url (issued w1) = requests_to url (issued w) @ [(url, with_pagetoken tok p)]"
    by blast
  show ?case
  proof (cases ds)
    case Nil
    with Cons.prems(5) have "\<not> truthy (page_token d)" by simp
    with pt have "page_turn url k p tok acc w = (Finished acc', w1)" by simp
    from search_loop_Finished [OF this] r1 Nil show ?thesis by simp
  next
    case (Cons d' ds')
    with Cons.prems(4) have t: "truthy (page_token d)" by simp
    with pt have again: "page_turn url k p tok acc w = (Again (with_pagetoken tok p) (page_token d) acc', w1)"
      by simp
    let ?p = "with_pagetoken tok p"
    have next_params: "with_pagetoken (page_token d) ?p = AList.update ''pagetoken'' (page_token d) p"
      using t by (simp add: with_pagetoken_def)
    have a: "\<And>hist req. fst req = detalhes_url \<Longrightarrow> readable_details (provider w1 hist req)"
      using Cons.prems(1) p1 by simp
    have b: "ds \<noteq> []" using Cons by simp
    have c: "list_all (readable_page k) ds" using Cons.prems(3) by simp
    have e: "list_all (\<lambda>d. truthy (page_token d)) (butlast ds)"
      using Cons.prems(4) b by simp
    have f: "\<not> truthy (page_token (last ds))" using Cons.prems(5) b by simp
    have g: "provider w1 hist (url, with_pagetoken (page_token d) ?p) = Decoded (hd ds)"
      if "length (requests_to url hist) = Suc n" for hist
      using Cons.prems(7) [of 0 hist] that b p1
      by (simp add: next_params hd_conv_nth)
    have h: "provider w1 hist (url, AList.update ''pagetoken'' (page_token (ds ! i)) ?p) = Decoded (ds ! Suc i)"
      if "Suc i < length ds" "length (requests_to url hist) = Suc n + Suc i" for i hist
      using Cons.prems(7) [of "Suc i" hist] that p1
      by (simp add: update_with_pagetoken)
    have i: "length (requests_to url (issued w1)) = Suc n"
      using r1 Cons.prems(8) by simp
    from Cons.IH [OF a b c e f g h i, of acc']
    obtain res w' where l: "search_loop url k ?p (page_token d) acc' w1 = Some (res, w')"
      and r: "requests_to url (issued w') = requests_to url (issued w1) @ (url, with_pagetoken (page_token d) ?p)
           # map (\<lambda>d. (url, AList.update ''pagetoken'' (page_token d) ?p)) (butlast ds)"
      by blast
    have "search_loop url k p tok acc w = Some (res, w')"
      using search_loop_Again [OF again] l by simp
    moreover have "requests_to url (issued w') = requests_to url (issued w) @ (url, with_pagetoken tok p)
           # map (\<lambda>d. (url, AList.update ''pagetoken'' (page_token d) p)) (butlast (d # ds))"
      using r r1 b by (simp add: next_params update_with_pagetoken)
    ultimately show ?thesis by blast
  qed
qed

text \<open>
  Claim C3, as amended. Let the provider answer the requests of a run to the search
  endpoint with \<open>N\<close> pages, one after the other: each has status OK and hits that are read
  without exception (every hit a dict whose \<open>geometry\<close> and \<open>location\<close>, when present,
  are dicts; the details of every hit a dict or empty), the first \<open>N - 1\<close> carry a
  continuation token and the last carries none. Then the run returns, it has issued
  exactly \<open>N\<close> requests to the endpoint, the first with the parameters it was given and
  request \<open>i + 1\<close> with the token of page \<open>i\<close> as its \<open>pagetoken\<close>. The endpoint is that
  of the text search or of the nearby search.
\<close>

theorem pagination_requests:
  assumes url: "url = BASE_URL \<or> url = nearby_url"
    and pages: "pages \<noteq> []"
    and ok: "list_all (readable_page address_key) pages"
    and tokens: "list_all (\<lambda>d. truthy (page_token d)) (butlast pages)"
    and final: "\<not> truthy (page_token (last pages))"
    and fresh: "requests_to url (issued w) = []"
    and first: "\<And>hist. requests_to url hist = [] \<Longrightarrow> provider w hist (url, params) = Decoded (pages ! 0)"
    and later: "\<And>i hist. Suc i < length pages \<Longrightarrow> length (requests_to url hist) = Suc i \<Longrightarrow>
        provider w hist (url, AList.update ''pagetoken'' (page_token (pages ! i)) params)
          = Decoded (pages ! Suc i)"
    and details: "\<And>hist req. fst req = detalhes_url \<Longrightarrow> readable_details (provider w hist req)"
  shows "\<exists>df w'. run_search url address_key params w = Some (df, w')
      \<and> requests_to url (issued w') =
          (url, params) # map (\<lambda>d. (url, AList.update ''pagetoken'' (page_token d) params)) (butlast pages)
      \<and> length (requests_to url (issued w')) = length pages"
proof -
  from url have u: "url \<noteq> detalhes_url" by auto
  have f: "provider w hist (url, with_pagetoken JNull params) = Decoded (hd pages)"
    if "length (requests_to url hist) = 0" for hist
    using first [of hist] that pages by (simp add: with_pagetoken_def hd_conv_nth)
  have l: "provider w hist (url, AList.update ''pagetoken'' (page_token (pages ! i)) params)
          = Decoded (pages ! Suc i)"
    if "Suc i < length pages" "length (requests_to url hist) = 0 + Suc i" for i hist
    using later [of i hist] that by simp
  have c: "length (requests_to url (issued w)) = 0" using fresh by simp
  from search_loop_pages [OF u details pages ok tokens final f l c, of "[]"]
  obtain res w' where s: "search_loop url address_key params JNull [] w = Some (res, w')"
    and r: "requests_to url (issued w') = requests_to url (issued w) @ (url, with_pagetoken JNull params)
           # map (\<lambda>d. (url, AList.update ''pagetoken'' (page_token d) params)) (butlast pages)"
    by blast
  from r fresh have r': "requests_to url (issued w') =
      (url, params) # map (\<lambda>d. (url, AList.update ''pagetoken'' (page_token d) params)) (butlast pages)"
    by (simp add: with_pagetoken_def)
  moreover from r' pages have "length (requests_to url (issued w')) = length pages"
    by simp
  moreover from s have "run_search url address_key params w = Some (DataFrame res, w')"
    by (simp add: run_search_def)
  ultimately show ?thesis by blast
qed

lemma acme_details_readable:
  "fst req = detalhes_url \<Longrightarrow> readable_details (acme_provider hist req)"
  by (simp add: acme_provider_def acme_details_def readable_details_def details_of_def
      read_details_def bind_exc_def split: option.splits)

text \<open>
  The claim as stated fails: of two pages with status OK, the first with a token, only
  the first is requested when its hit has \<open>null\<close> for its \<open>geometry\<close>: reading the hit
  raises, the \<open>except\<close> clause ends the loop, and the run returns no row.
\<close>

theorem pagination_counterexample:
  "getitem null_geometry_page ''status'' = Inr (JStr ''OK'')
   \<and> truthy (page_token null_geometry_page)
   \<and> getitem empty_page ''status'' = Inr (JStr ''OK'')
   \<and> \<not> truthy (page_token empty_page)
   \<and> two_page_provider (Decoded null_geometry_page) (Decoded empty_page) []
         (BASE_URL, [(''query'', JStr ''A''), (''key'', JStr ''k'')]) = Decoded null_geometry_page
   \<and> two_page_provider (Decoded null_geometry_page) (Decoded empty_page)
         [(BASE_URL, [(''query'', JStr ''A''), (''key'', JStr ''k'')])]
         (BASE_URL, [(''query'', JStr ''A''), (''key'', JStr ''k''), (''pagetoken'', JStr ''page2'')])
       = Decoded empty_page
   \<and> map_option (\<lambda>r. (rows (fst r), requests_to BASE_URL (issued (snd r))))
        (buscar_textsearch ''A'' None None None None
           (two_page_world (Decoded null_geometry_page) (Decoded empty_page)))
     = Some ([], [(BASE_URL, [(''query'', JStr ''A''), (''key'', JStr ''k'')])])"
proof -
  let ?w = "two_page_world (Decoded null_geometry_page) (Decoded empty_page)"
  let ?ps = "[(''query'', JStr ''A''), (''key'', JStr ''k'')]"
  have ps: "textsearch_params ?w ''A'' None None None None = ?ps"
    by (simp add: textsearch_params_def str_arg_def int_arg_def two_page_world_def acme_world_def)
  have answer: "provider ?w (issued ?w) (BASE_URL, ?ps) = Decoded null_geometry_page"
    by (simp add: two_page_world_def two_page_provider_def)
  have hit: "read_hit ''formatted_address'' (JObj [(''name'', JStr ''A''), (''geometry'', JNull)])
      = Inl AttributeError"
    by (simp add: read_hit_def read_coord_def bind_exc_def)
  have turn_gen: "page_turn BASE_URL ''formatted_address'' ?ps JNull [] w
      = (Finished [], w\<lparr>issued := issued w @ [(BASE_URL, ?ps)]\<rparr>)"
    if "provider w (issued w) (BASE_URL, ?ps) = Decoded null_geometry_page" for w
    using that
    by (simp add: page_turn_eval with_pagetoken_def null_geometry_page_def bind_exc_def Let_def
        process_hit_eval hit)
  note turn = turn_gen [OF answer]
  from search_loop_Finished [OF turn]
  have run: "buscar_textsearch ''A'' None None None None ?w
      = Some (DataFrame [], ?w\<lparr>issued := issued ?w @ [(BASE_URL, ?ps)]\<rparr>)"
    by (simp add: buscar_textsearch_def run_search_def ps)
  have 7: "map_option (\<lambda>r. (rows (fst r), requests_to BASE_URL (issued (snd r))))
        (buscar_textsearch ''A'' None None None None ?w) = Some ([], [(BASE_URL, ?ps)])"
    unfolding run by (simp add: DataFrame_def requests_to_def two_page_world_def acme_world_def)
  have 1: "getitem null_geometry_page ''status'' = Inr (JStr ''OK'')"
    and 2: "truthy (page_token null_geometry_page)"
    and 3: "getitem empty_page ''status'' = Inr (JStr ''OK'')"
    and 4: "\<not> truthy (page_token empty_page)"
    by (simp_all add: null_geometry_page_def empty_page_def page_token_def)
  have 5: "two_page_provider (Decoded null_geometry_page) (Decoded empty_page) []
         (BASE_URL, ?ps) = Decoded null_geometry_page"
    and 6: "two_page_provider (Decoded null_geometry_page) (Decoded empty_page) [(BASE_URL, ?ps)]
         (BASE_URL, [(''query'', JStr ''A''), (''key'', JStr ''k''), (''pagetoken'', JStr ''page2'')])
       = Decoded empty_page"
    by (simp_all add: two_page_provider_def)
  from 1 2 3 4 5 6 7 show ?thesis by simp
qed

theorem pagination_requests_witness:
  "\<exists>df w'. buscar_nearbysearch ''Acme Ltda'' (Some ''39.78,-89.65'') (Some 23000) acme_world = Some (df, w')
     \<and> requests_to nearby_url (issued w') =
         [(nearby_url, [(''keyword'', JStr ''Acme Ltda''), (''location'', JStr ''39.78,-89.65''),
                        (''radius'', JInt 23000), (''key'', JStr ''k'')]),
          (nearby_url, [(''keyword'', JStr ''Acme Ltda''), (''location'', JStr ''39.78,-89.65''),
                        (''radius'', JInt 23000), (''key'', JStr ''k''), (''pagetoken'', JStr ''page2'')])]"
proof -
  let ?ps = "nearby_params acme_world ''Acme Ltda'' (Some ''39.78,-89.65'') (Some 23000)"
  have ps: "?ps = [(''keyword'', JStr ''Acme Ltda''), (''location'', JStr ''39.78,-89.65''),
                        (''radius'', JInt 23000), (''key'', JStr ''k'')]"
    by (simp add: nearby_params_def str_arg_def int_arg_def acme_world_def)
  have hit: "readable_hit ''vicinity'' (acme_hit ''vicinity'' n a p)" for n a p
    by (simp add: readable_hit_def read_hit_def read_coord_def acme_hit_def bind_exc_def)
  have tok1: "page_token (acme_nearby_pages ! 0) = JStr ''page2''"
    by (simp add: acme_nearby_pages_def page_token_def)
  have a: "nearby_url = BASE_URL \<or> nearby_url = nearby_url" by simp
  have b: "acme_nearby_pages \<noteq> []" by (simp add: acme_nearby_pages_def)
  have c: "list_all (readable_page ''vicinity'') acme_nearby_pages"
    by (simp add: acme_nearby_pages_def readable_page_def page_hits_def bind_exc_def hit)
  have d: "list_all (\<lambda>d. truthy (page_token d)) (butlast acme_nearby_pages)"
    by (simp add: acme_nearby_pages_def page_token_def)
  have e: "\<not> truthy (page_token (last acme_nearby_pages))"
    by (simp add: acme_nearby_pages_def page_token_def)
  have f: "requests_to nearby_url (issued acme_world) = []"
    by (simp add: acme_world_def requests_to_def)
  have g: "provider acme_world hist (nearby_url, ?ps) = Decoded (acme_nearby_pages ! 0)" for hist
    by (simp add: ps) (simp add: acme_world_def acme_provider_def acme_nearby_pages_def)
  have h: "provider acme_world hist
        (nearby_url, AList.update ''pagetoken'' (page_token (acme_nearby_pages ! i)) ?ps)
      = Decoded (acme_nearby_pages ! Suc i)"
    if "Suc i < length acme_nearby_pages" for i hist
  proof -
    from that have "i = 0" by (simp add: acme_nearby_pages_def)
    then show ?thesis
      by (simp add: tok1 ps) (simp add: acme_world_def acme_provider_def acme_nearby_pages_def)
  qed
  have i: "readable_details (provider acme_world hist req)" if "fst req = detalhes_url" for hist req
    using acme_details_readable [OF that] by (simp add: acme_world_def)
  from pagination_requests [OF a b c d e f g h i]
  obtain df w' where run: "run_search nearby_url ''vicinity'' ?ps acme_world = Some (df, w')"
    and reqs: "requests_to nearby_url (issued w') =
          (nearby_url, ?ps) # map (\<lambda>d. (nearby_url, AList.update ''pagetoken'' (page_token d) ?ps))
             (butlast acme_nearby_pages)"
    by blast
  from reqs have "requests_to nearby_url (issued w') =
         [(nearby_url, [(''keyword'', JStr ''Acme Ltda''), (''location'', JStr ''39.78,-89.65''),
                        (''radius'', JInt 23000), (''key'', JStr ''k'')]),
          (nearby_url, [(''keyword'', JStr ''Acme Ltda''), (''location'', JStr ''39.78,-89.65''),
                        (''radius'', JInt 23000), (''key'', JStr ''k''), (''pagetoken'', JStr ''page2'')])]"
    by (simp add: ps) (simp add: acme_nearby_pages_def page_token_def)
  with run show ?thesis
    by (auto simp: buscar_nearbysearch_def)
qed

subsection \<open>A failure in a turn\<close>













end
